theory Spec2Isabelle
  imports Complex_Main "HOL-Library.AList" "HOL-Library.Sublist"
begin

section \<open>Python values and the runtime\<close>

text \<open>
  The configuration is a YAML document loaded into a dict; the values the batch builder
  handles are \<open>None\<close>, booleans, integers, floats, strings and the
  \<open>(latitude, longitude)\<close> tuples of the observers. A finite float is written as the
  rational it denotes, so that \<open>==\<close> between numbers is the exact comparison Python
  performs. NaN and the infinities are not represented.
\<close>

datatype atom =
    ANone
  | ABool bool
  | AInt int
  | AFloat rat
  | AStr string
  | ATuple atom atom

text \<open>A configuration value: a scalar, or a Python list (\<open>isinstance(v, list)\<close>).\<close>

datatype pval = Scalar atom | Multi "atom list"

type_synonym params = "(string \<times> pval) list"

datatype error =
    KeyError string
  | NameError string
  | ValueError
  | TypeError
  | IndexError
  | AttributeError
  | FileExistsError string
  | FileNotFoundError string
  | IsADirectoryError string
  | NotADirectoryError string

text \<open>Sequencing of fallible steps: the first exception ends the computation.\<close>

fun and_then :: "error + 'a \<Rightarrow> ('a \<Rightarrow> error + 'b) \<Rightarrow> error + 'b" where
  "and_then (Inl e) f = Inl e"
| "and_then (Inr x) f = f x"

text \<open>
  The list \<open>const_args\<close> that \<open>batches\<close> dumps to \<open>const_params.yml\<close> and
  \<open>const_params.txt\<close> (lines 179-186 and 200-201).
\<close>

record const_args =
  c_multival :: "string list"
  c_brng :: "rat list option"
  c_compact :: bool
  c_dir_name :: string
  c_wls :: "rat list"
  c_refls :: "rat list"
  c_spectral_bands :: "rat list list"
  c_lamps :: "string list"
  c_exp_name :: pval

text \<open>
  What the model takes from the Python runtime and its libraries rather than from the
  repository: the text of a float (\<open>str\<close>, and the conversions \<open>%g\<close> and \<open>%6f\<close>),
  the rounding of a real result to a float, the quoting \<open>repr\<close> applies to a string, and
  the pattern matching of \<open>glob\<close> (\<open>glob_match rt cwd pat p\<close>: the pattern \<open>pat\<close>, read in
  the working directory \<open>cwd\<close>, selects the entry at the absolute path \<open>p\<close>), and the
  text \<open>yaml.dump\<close> and an f-string give for \<open>const_args\<close>, which holds numpy arrays.
\<close>

record runtime =
  float_str :: "rat \<Rightarrow> string"
  fmt_g :: "rat \<Rightarrow> string"
  fmt_6f :: "rat \<Rightarrow> string"
  fl :: "rat \<Rightarrow> rat"
  repr_str :: "string \<Rightarrow> string"
  glob_match :: "string list \<Rightarrow> string \<Rightarrow> string list \<Rightarrow> bool"
  yaml_dump :: "const_args \<Rightarrow> string"
  format_const :: "const_args \<Rightarrow> string"

subsection \<open>Text of a value\<close>

text \<open>Decimal digits of a natural number, most significant first.\<close>

function digits10 :: "nat \<Rightarrow> string" where
  "digits10 n =
     (if n < 10 then [''0123456789'' ! n]
      else digits10 (n div 10) @ [''0123456789'' ! (n mod 10)])"
  by pat_completeness auto
termination
  by (relation "measure id") auto

declare digits10.simps [simp del]

definition str_int :: "int \<Rightarrow> string" where
  "str_int i = (if i < 0 then CHR ''-'' # digits10 (nat (- i)) else digits10 (nat i))"

text \<open>\<open>"%03d" % i\<close> for the positive lamp ordinals: zero-padded to at least three digits.\<close>

definition fmt_03d :: "nat \<Rightarrow> string" where
  "fmt_03d i = replicate (3 - length (digits10 i)) CHR ''0'' @ digits10 i"

text \<open>\<open>sep.join(parts)\<close>.\<close>

fun join :: "string \<Rightarrow> string list \<Rightarrow> string" where
  "join sep [] = []"
| "join sep [x] = x"
| "join sep (x # y # ys) = x @ sep @ join sep (y # ys)"

fun py_repr :: "runtime \<Rightarrow> atom \<Rightarrow> string" where
  "py_repr rt ANone = ''None''"
| "py_repr rt (ABool b) = (if b then ''True'' else ''False'')"
| "py_repr rt (AInt i) = str_int i"
| "py_repr rt (AFloat r) = float_str rt r"
| "py_repr rt (AStr s) = repr_str rt s"
| "py_repr rt (ATuple a b) = ''('' @ py_repr rt a @ '', '' @ py_repr rt b @ '')''"

text \<open>\<open>str(v)\<close>, which is also what \<open>"%s" % v\<close> and \<open>f"{v}"\<close> produce.\<close>

fun py_str :: "runtime \<Rightarrow> atom \<Rightarrow> string" where
  "py_str rt (AStr s) = s"
| "py_str rt a = py_repr rt a"

fun str_pval :: "runtime \<Rightarrow> pval \<Rightarrow> string" where
  "str_pval rt (Scalar a) = py_str rt a"
| "str_pval rt (Multi vs) = ''['' @ join '', '' (map (py_repr rt) vs) @ '']''"

subsection \<open>Comparison and arithmetic\<close>

fun num_of :: "atom \<Rightarrow> rat option" where
  "num_of (ABool b) = Some (if b then 1 else 0)"
| "num_of (AInt i) = Some (of_int i)"
| "num_of (AFloat r) = Some r"
| "num_of a = None"

text \<open>\<open>x == y\<close>: numbers (booleans included) compare by value across their types.\<close>

fun py_eq :: "atom \<Rightarrow> atom \<Rightarrow> bool" where
  "py_eq (ATuple a b) (ATuple c d) = (py_eq a c \<and> py_eq b d)"
| "py_eq (AStr s) (AStr t) = (s = t)"
| "py_eq ANone ANone = True"
| "py_eq x y = (case (num_of x, num_of y) of (Some a, Some b) \<Rightarrow> a = b | _ \<Rightarrow> False)"

text \<open>\<open>v == 90\<close> for a configuration value: a list never equals an integer.\<close>

fun eq_int :: "pval \<Rightarrow> int \<Rightarrow> bool" where
  "eq_int (Scalar a) n = py_eq a (AInt n)"
| "eq_int (Multi vs) n = False"

text \<open>\<open>xs.index(x)\<close>: the first position holding a value equal to \<open>x\<close>, else ValueError.\<close>

fun index_py :: "atom list \<Rightarrow> atom \<Rightarrow> error + nat" where
  "index_py [] x = Inl ValueError"
| "index_py (y # ys) x =
     (if py_eq y x then Inr 0 else and_then (index_py ys x) (\<lambda>i. Inr (Suc i)))"

text \<open>\<open>xs[i]\<close> for a non-negative index.\<close>

definition subscript :: "'a list \<Rightarrow> nat \<Rightarrow> error + 'a" where
  "subscript xs i = (if i < length xs then Inr (xs ! i) else Inl IndexError)"


text \<open>
  \<open>(a + b) % 360\<close> for an angle \<open>a\<close> read from the configuration and a bearing
  \<open>b\<close>, which is the integer 0 or an entry of the float array read from \<open>brng.lst\<close>.
  Integers and booleans add and reduce exactly; as soon as a float takes part each
  operation rounds its real result (the floor remainder of a float is exact before the
  final rounding). An angle that is not a number raises TypeError at the addition.
\<close>

datatype number = NInt int | NFloat rat

fun int_of :: "atom \<Rightarrow> int option" where
  "int_of (ABool b) = Some (if b then 1 else 0)"
| "int_of (AInt i) = Some i"
| "int_of a = None"

fun py_add :: "runtime \<Rightarrow> atom \<Rightarrow> number \<Rightarrow> error + number" where
  "py_add rt a (NInt j) =
     (case int_of a of
        Some i \<Rightarrow> Inr (NInt (i + j))
      | None \<Rightarrow>
          (case num_of a of Some x \<Rightarrow> Inr (NFloat (fl rt (x + of_int j)))
                          | None \<Rightarrow> Inl TypeError))"
| "py_add rt a (NFloat y) =
     (case num_of a of Some x \<Rightarrow> Inr (NFloat (fl rt (x + y)))
                     | None \<Rightarrow> Inl TypeError)"

fun py_mod360 :: "runtime \<Rightarrow> number \<Rightarrow> atom" where
  "py_mod360 rt (NInt i) = AInt (i mod 360)"
| "py_mod360 rt (NFloat x) = AFloat (fl rt (x - 360 * of_int \<lfloor>x / 360\<rfloor>))"

fun as_atom :: "pval \<Rightarrow> error + atom" where
  "as_atom (Scalar a) = Inr a"
| "as_atom (Multi vs) = Inl TypeError"

text \<open>\<open>"%g" % v\<close> and \<open>"%6f" % v\<close>: the argument must be a number and is converted to a float.\<close>

definition percent_g :: "runtime \<Rightarrow> pval \<Rightarrow> error + string" where
  "percent_g rt v =
     and_then (as_atom v) (\<lambda>a.
       case num_of a of Some x \<Rightarrow> Inr (fmt_g rt (case a of AFloat r \<Rightarrow> r | _ \<Rightarrow> fl rt x))
                      | None \<Rightarrow> Inl TypeError)"

definition percent_6f :: "runtime \<Rightarrow> atom \<Rightarrow> error + string" where
  "percent_6f rt a =
     (case num_of a of Some x \<Rightarrow> Inr (fmt_6f rt (case a of AFloat r \<Rightarrow> r | _ \<Rightarrow> fl rt x))
                     | None \<Rightarrow> Inl TypeError)"

section \<open>ParameterSpace (\<open>batches\<close>, lines 168-178)\<close>

fun is_list :: "pval \<Rightarrow> bool" where
  "is_list (Multi vs) = True"
| "is_list (Scalar v) = False"

text \<open>
  \<open>multival = [k for k in params if isinstance(params[k], list)]\<close>: the keys of the
  dict, in insertion order, whose value is a list.
\<close>

definition varying :: "params \<Rightarrow> string list" where
  "varying params = map fst (filter (\<lambda>(k, v). is_list v) params)"

text \<open>
  \<open>sorted(multival, key=len, reverse=True)\<close>. The elements of \<open>multival\<close> are the
  parameter names, so \<open>len\<close> is the length of the name (names are taken to be ASCII,
  where characters and bytes coincide). Python's sort is stable, also with
  \<open>reverse=True\<close>: elements with equal keys keep their original order.
\<close>

definition sorted_len_reverse :: "string list \<Rightarrow> string list" where
  "sorted_len_reverse ks = sort_key (\<lambda>k. - int (length k)) ks"

definition multival :: "params \<Rightarrow> string list" where
  "multival params = sorted_len_reverse (varying params)"

text \<open>
  \<open>param_space = [params[k] for k in multival]\<close>. Every \<open>k\<close> of \<open>multival\<close> is a key of
  the dict bound to a list (lemma \<open>multival_bound\<close>), so the lookup never raises and the
  last branch is never taken.
\<close>

definition values_of :: "params \<Rightarrow> string \<Rightarrow> atom list" where
  "values_of params k = (case map_of params k of Some (Multi vs) \<Rightarrow> vs | _ \<Rightarrow> [])"

definition param_space :: "params \<Rightarrow> atom list list" where
  "param_space params = map (values_of params) (multival params)"

text \<open>\<open>[len(p) for p in param_space]\<close>, the factors of \<open>N\<close>.\<close>

definition cardinalities :: "params \<Rightarrow> nat list" where
  "cardinalities params = map length (param_space params)"

text \<open>
  \<open>itertools.product(*param_space)\<close>: the tuples of the Cartesian product, the rightmost
  component advancing fastest.
\<close>

fun product_py :: "'a list list \<Rightarrow> 'a list list" where
  "product_py [] = [[]]"
| "product_py (xs # xss) = concat (map (\<lambda>x. map ((#) x) (product_py xss)) xs)"

definition param_vals :: "params \<Rightarrow> atom list list" where
  "param_vals params = product_py (param_space params)"

section \<open>Resolved parameters and the constraint filter (\<open>folder_setup\<close>, lines 250-257)\<close>

type_synonym local_params = "(string \<times> atom) list"

text \<open>
  \<open>OrderedDict(zip(multival, param_vals))\<close>: the pairs are inserted in order; a key
  inserted again keeps its position and takes the new value.
\<close>

definition ordered_dict :: "(string \<times> atom) list \<Rightarrow> local_params" where
  "ordered_dict kvs = foldl (\<lambda>d (k, v). AList.update k v d) [] kvs"

text \<open>\<open>params[k]\<close> on the base dict.\<close>

definition dict_get :: "params \<Rightarrow> string \<Rightarrow> error + pval" where
  "dict_get params k = (case map_of params k of Some v \<Rightarrow> Inr v | None \<Rightarrow> Inl (KeyError k))"

text \<open>
  \<open>P = ChainMap(local_params, params)\<close> and \<open>P[k]\<close>: the combination's value when it has
  one, else the configuration's, else KeyError.
\<close>

definition chain_get :: "local_params \<Rightarrow> params \<Rightarrow> string \<Rightarrow> error + pval" where
  "chain_get local params k =
     (case map_of local k of Some v \<Rightarrow> Inr (Scalar v) | None \<Rightarrow> dict_get params k)"

text \<open>
  \<open>xs.index(v)\<close> where \<open>xs\<close> was read from the configuration. A list is searched; a
  value read through \<open>P\<close> that is itself a list equals no element. Only a list is ever
  searched when \<open>multival\<close> was computed from \<open>params\<close>; on a scalar the model answers
  with the AttributeError a number gives.
\<close>

fun index_pval :: "pval \<Rightarrow> pval \<Rightarrow> error + nat" where
  "index_pval (Multi xs) (Scalar v) = index_py xs v"
| "index_pval (Multi xs) (Multi vs) = Inl ValueError"
| "index_pval (Scalar x) v = Inl AttributeError"

text \<open>
  The condition of the \<open>if\<close> at lines 252-256, whose body is \<open>continue\<close>: \<open>Inr True\<close>
  when the combination is skipped. The conjuncts are evaluated left to right and stop at
  the first that is false.
\<close>

definition filtered_out :: "params \<Rightarrow> string list \<Rightarrow> local_params \<Rightarrow> error + bool" where
  "filtered_out params mv local =
     (if ''azimuth_angle'' \<in> set mv then
        and_then (chain_get local params ''elevation_angle'') (\<lambda>e.
          if eq_int e 90 then
            and_then (dict_get params ''azimuth_angle'') (\<lambda>azs.
            and_then (chain_get local params ''azimuth_angle'') (\<lambda>a.
            and_then (index_pval azs a) (\<lambda>i. Inr (i \<noteq> 0))))
          else Inr False)
      else Inr False)"

section \<open>Sandbox naming (\<open>folder_setup\<close>, lines 269-290)\<close>

text \<open>\<open>"%6f_%6f" % P["observer_coordinates"]\<close>: the value must be a pair of numbers.\<close>

fun coords_of :: "runtime \<Rightarrow> pval \<Rightarrow> error + string" where
  "coords_of rt (Scalar (ATuple a b)) =
     and_then (percent_6f rt a) (\<lambda>x.
     and_then (percent_6f rt b) (\<lambda>y. Inr (x @ ''_'' @ y)))"
| "coords_of rt v = Inl TypeError"

text \<open>
  \<open>P["observer_coordinates"] = coords\<close> when the observer varies: a ChainMap writes to
  its first map, where the key already stands.
\<close>

definition with_coords :: "string list \<Rightarrow> string \<Rightarrow> local_params \<Rightarrow> local_params" where
  "with_coords mv coords local =
     (if ''observer_coordinates'' \<in> set mv
      then AList.update ''observer_coordinates'' (AStr coords) local else local)"

text \<open>\<open>f"{k}_{v}"\<close>, equally \<open>"%s_%s" % (k, v)\<close>.\<close>

definition key_value :: "runtime \<Rightarrow> string \<times> atom \<Rightarrow> string" where
  "key_value rt item = fst item @ ''_'' @ py_str rt (snd item)"

text \<open>Lines 273-288, with \<open>os.sep\<close> the slash.\<close>

definition fold_name_of :: "runtime \<Rightarrow> bool \<Rightarrow> string \<Rightarrow> local_params \<Rightarrow> string" where
  "fold_name_of rt compact_mode dir_name local =
     (if compact_mode then
        dir_name
        @ join ''/'' (map (key_value rt)
            (filter (\<lambda>(k, v). k \<in> set [''observer_coordinates'', ''wavelength'', ''layer''])
               local))
        @ ''/''
      else dir_name @ join ''/'' (map (key_value rt) local) @ ''/'')"

text \<open>Line 290: \<open>"-".join("%s_%s" % item for item in local_params.items())\<close>.\<close>

definition unique_ID :: "runtime \<Rightarrow> local_params \<Rightarrow> string" where
  "unique_ID rt local = join ''-'' (map (key_value rt) local)"

section \<open>InputFileSerializer (\<open>input_line\<close>, \<open>create_illumina_in\<close>)\<close>







text \<open>\<open>(P["azimuth_angle"] + bearing) % 360\<close>.\<close>

definition azimuth_view :: "runtime \<Rightarrow> error + pval \<Rightarrow> number \<Rightarrow> error + pval" where
  "azimuth_view rt az bearing =
     and_then az (\<lambda>v. and_then (as_atom v) (\<lambda>a.
       and_then (py_add rt a bearing) (\<lambda>s. Inr (Scalar (py_mod360 rt s)))))"





section \<open>Paths and the file system\<close>

text \<open>
  The file system is a finite table from absolute paths (lists of names below the root)
  to nodes. A path string is resolved lexically, as \<open>os.path.abspath\<close> does: empty
  names and \<open>.\<close> are dropped and \<open>..\<close> removes the name before it. A symbolic link is a
  leaf holding the text of its target; no operation of the model looks through a link,
  and permissions are not modelled, so an operation fails only for the reasons written
  out below. The separator is the slash.
\<close>

type_synonym path = "string list"

datatype node = File string | Dir | Symlink string

type_synonym fs = "(path \<times> node) list"

text \<open>\<open>s.split(c)\<close>.\<close>

fun split_on :: "char \<Rightarrow> string \<Rightarrow> string list" where
  "split_on c [] = [[]]"
| "split_on c (x # xs) =
     (if x = c then [] # split_on c xs
      else (case split_on c xs of w # ws \<Rightarrow> (x # w) # ws | [] \<Rightarrow> [[x]]))"

definition norm_step :: "path \<Rightarrow> string \<Rightarrow> path" where
  "norm_step acc c =
     (if c = [] \<or> c = ''.'' then acc else if c = ''..'' then butlast acc else acc @ [c])"

definition abs_path :: "path \<Rightarrow> string \<Rightarrow> path" where
  "abs_path cwd p =
     foldl norm_step [] ((if take 1 p = ''/'' then [] else cwd) @ split_on CHR ''/'' p)"

text \<open>The string \<open>os.path.abspath\<close> returns for a resolved path.\<close>

definition path_str :: "path \<Rightarrow> string" where
  "path_str p = ''/'' @ join ''/'' p"

text \<open>\<open>os.path.join(a, b)\<close>.\<close>

definition path_join :: "string \<Rightarrow> string \<Rightarrow> string" where
  "path_join a b =
     (if take 1 b = ''/'' then b
      else if a = [] \<or> last a = CHR ''/'' then a @ b
      else a @ ''/'' @ b)"

text \<open>
  \<open>os.path.relpath(p, start)\<close>: both are made absolute, their common leading names are
  dropped, and the result climbs out of what is left of \<open>start\<close> and descends into what
  is left of \<open>p\<close>. (It raises on an empty \<open>p\<close>; every path the module passes ends in a
  literal file name.)
\<close>

fun strip_common :: "path \<Rightarrow> path \<Rightarrow> path \<times> path" where
  "strip_common (x # xs) (y # ys) =
     (if x = y then strip_common xs ys else (x # xs, y # ys))"
| "strip_common xs ys = (xs, ys)"

definition relpath :: "path \<Rightarrow> string \<Rightarrow> string \<Rightarrow> string" where
  "relpath cwd p start =
     (case strip_common (abs_path cwd start) (abs_path cwd p) of
        (s, t) \<Rightarrow>
          (let rel = replicate (length s) ''..'' @ t
           in if rel = [] then ''.'' else join ''/'' rel))"

definition lookup :: "fs \<Rightarrow> path \<Rightarrow> node option" where
  "lookup fs p = (if p = [] then Some Dir else map_of fs p)"

definition isdir :: "fs \<Rightarrow> path \<Rightarrow> bool" where
  "isdir fs p = (lookup fs p = Some Dir)"

definition isfile :: "fs \<Rightarrow> path \<Rightarrow> bool" where
  "isfile fs p = (case lookup fs p of Some (File c) \<Rightarrow> True | _ \<Rightarrow> False)"

text \<open>
  \<open>os.makedirs(p)\<close> without \<open>exist_ok\<close>: raises when \<open>p\<close> exists or a name on the way
  is not a directory, else creates the missing directories from the outermost inwards.
\<close>

definition makedirs :: "fs \<Rightarrow> path \<Rightarrow> error + fs" where
  "makedirs fs p =
     (if lookup fs p \<noteq> None then Inl (FileExistsError (path_str p))
      else
        (case find (\<lambda>q. lookup fs q \<noteq> None \<and> lookup fs q \<noteq> Some Dir) (prefixes p) of
           Some q \<Rightarrow> Inl (NotADirectoryError (path_str q))
         | None \<Rightarrow> Inr (fs @ map (\<lambda>q. (q, Dir)) (filter (\<lambda>q. lookup fs q = None) (prefixes p)))))"

text \<open>
  \<open>os.symlink(target, link)\<close>: creates the link whatever \<open>target\<close> names; it raises when
  \<open>link\<close> exists or its directory does not.
\<close>

definition symlink :: "fs \<Rightarrow> string \<Rightarrow> path \<Rightarrow> error + fs" where
  "symlink fs target link =
     (if lookup fs link \<noteq> None then Inl (FileExistsError (path_str link))
      else if \<not> isdir fs (butlast link) then Inl (FileNotFoundError (path_str link))
      else Inr (fs @ [(link, Symlink target)]))"

text \<open>\<open>os.remove(p)\<close>: removes a file or a link, raises on a directory.\<close>

definition remove :: "fs \<Rightarrow> path \<Rightarrow> error + fs" where
  "remove fs p =
     (case lookup fs p of
        None \<Rightarrow> Inl (FileNotFoundError (path_str p))
      | Some Dir \<Rightarrow> Inl (IsADirectoryError (path_str p))
      | Some n \<Rightarrow> Inr (AList.delete p fs))"

text \<open>
  \<open>shutil.rmtree(p, True)\<close>: removes the directory with everything below it; on
  anything that is not a directory the error is ignored and nothing changes.
\<close>

definition rmtree :: "fs \<Rightarrow> path \<Rightarrow> fs" where
  "rmtree fs p = (if isdir fs p then filter (\<lambda>(q, n). \<not> prefix p q) fs else fs)"

text \<open>\<open>open(p, "w")\<close>, a write and the close: the file is created or replaced.\<close>

definition write_file :: "fs \<Rightarrow> path \<Rightarrow> string \<Rightarrow> error + fs" where
  "write_file fs p content =
     (if lookup fs p = Some Dir then Inl (IsADirectoryError (path_str p))
      else if \<not> isdir fs (butlast p) then Inl (FileNotFoundError (path_str p))
      else Inr (AList.update p (File content) fs))"

text \<open>\<open>glob(pattern)\<close>: the entries the pattern selects, in directory order.\<close>

definition glob :: "runtime \<Rightarrow> path \<Rightarrow> fs \<Rightarrow> string \<Rightarrow> path list" where
  "glob rt cwd fs pattern = map fst (filter (\<lambda>(p, n). glob_match rt cwd pattern p) fs)"

text \<open>
  The process environment: the working directory after \<open>os.chdir(input_path)\<close> and the
  directory that holds the \<open>illum\<close> package, \<open>os.path.dirname(illum.__path__[0])\<close>.
\<close>

record env =
  cwd :: path
  illumpath :: string

text \<open>A sequence of file-system steps, run until the first raises.\<close>

fun run_steps :: "('s \<Rightarrow> error + 's) list \<Rightarrow> 's \<Rightarrow> error + 's" where
  "run_steps [] s = Inr s"
| "run_steps (f # fs) s = and_then (f s) (run_steps fs)"

section \<open>Sandbox materialization (\<open>create_symlinks\<close>, lines 428-488)\<close>

text \<open>\<open>os.symlink(os.path.relpath(src, fold_name), dst)\<close>.\<close>

definition link_rel :: "env \<Rightarrow> string \<Rightarrow> string \<Rightarrow> string \<Rightarrow> fs \<Rightarrow> error + fs" where
  "link_rel env fold_name src dst s =
     symlink s (relpath (cwd env) src fold_name) (abs_path (cwd env) dst)"

text \<open>\<open>fold_name + exp_name\<close>: concatenation to a string needs a string.\<close>

fun as_str :: "pval \<Rightarrow> error + string" where
  "as_str (Scalar (AStr s)) = Inr s"
| "as_str v = Inl TypeError"

text \<open>
  The body of the \<open>if\<close>, as the sequence of its file-system calls. Each call computes
  its arguments first (a missing configuration key or a non-string experiment name
  raises there) and then acts on the file system.
\<close>

definition sandbox_steps ::
  "runtime \<Rightarrow> env \<Rightarrow> string \<Rightarrow> params \<Rightarrow> pval \<Rightarrow> string \<Rightarrow> pval \<Rightarrow> string list \<Rightarrow> string \<Rightarrow>
   (fs \<Rightarrow> error + fs) list" where
  "sandbox_steps rt env fold_name params exp_name coords layer lamps wavelength =
   (let obs_fold = path_join (path_join ''obs_data'' coords) (str_pval rt layer) in
    [\<lambda>s. makedirs s (abs_path (cwd env) fold_name),
     \<lambda>s. and_then (dict_get params ''aerosol_profile'') (\<lambda>profile.
            link_rel env fold_name (str_pval rt profile @ ''_'' @ wavelength @ ''.txt'')
              (fold_name @ ''aerosol.txt'') s),
     \<lambda>s. and_then (dict_get params ''layer_type'') (\<lambda>layer_type.
            link_rel env fold_name (str_pval rt layer_type @ ''_'' @ wavelength @ ''.txt'')
              (fold_name @ ''layer.txt'') s),
     link_rel env fold_name ''MolecularAbs.txt'' (fold_name @ ''MolecularAbs.txt'')]
    @ map (\<lambda>(i, lamp). \<lambda>s.
        and_then (as_str exp_name) (\<lambda>e.
          link_rel env fold_name (''fctem_wl_'' @ wavelength @ ''_lamp_'' @ lamp @ ''.dat'')
            (fold_name @ e @ ''_fctem_'' @ fmt_03d i @ ''.dat'') s))
        (enumerate 1 lamps)
    @ [\<lambda>s. symlink s (path_str (abs_path (cwd env) (illumpath env @ ''/bin/illumina'')))
              (abs_path (cwd env) (fold_name @ ''illumina'')),
       \<lambda>s. and_then (as_str exp_name) (\<lambda>e.
              link_rel env fold_name (path_join obs_fold ''srtm.bin'')
                (fold_name @ e @ ''_topogra.bin'') s),
       link_rel env fold_name (path_join obs_fold ''origin.bin'') (fold_name @ ''origin.bin'')]
    @ map (\<lambda>name.
        link_rel env fold_name (path_join obs_fold (str_pval rt exp_name @ ''_'' @ name @ ''.bin''))
          (fold_name @ str_pval rt exp_name @ ''_'' @ name @ ''.bin''))
        [''obstd'', ''obsth'', ''obstf'', ''altlp'']
    @ map (\<lambda>(i, lamp).
        link_rel env fold_name
          (path_join obs_fold
             (str_pval rt exp_name @ ''_'' @ wavelength @ ''_lumlp_'' @ lamp @ ''.bin''))
          (fold_name @ str_pval rt exp_name @ ''_lumlp_'' @ fmt_03d i @ ''.bin''))
        (enumerate 1 lamps))"

definition create_symlinks ::
  "runtime \<Rightarrow> env \<Rightarrow> string \<Rightarrow> params \<Rightarrow> pval \<Rightarrow> string \<Rightarrow> pval \<Rightarrow> string list \<Rightarrow> string \<Rightarrow>
   fs \<Rightarrow> error + fs" where
  "create_symlinks rt env fold_name params exp_name coords layer lamps wavelength s =
     (if isdir s (abs_path (cwd env) fold_name) then Inr s
      else run_steps
             (sandbox_steps rt env fold_name params exp_name coords layer lamps wavelength) s)"

section \<open>\<open>folder_setup\<close> (lines 242-309)\<close>

text \<open>
  \<open>folder_setup\<close> reads four names that are neither its parameters nor its local
  variables: \<open>refls\<close>, \<open>wls\<close>, \<open>spectral_bands\<close> and \<open>lamps\<close>. Python looks such a name
  up among the module's globals when the statement runs and raises NameError when it is
  not bound there. The table of globals is a parameter of the model; \<open>module_globals\<close> is
  the table of \<open>illum/batches.py\<close>, whose top level consists of imports, the assignment
  of \<open>progress\<close> and function definitions, and so binds none of the four (in \<open>batches\<close>
  they are local variables).
\<close>

datatype gval = GFloats "rat list" | GTable "rat list list" | GStrings "string list"

type_synonym globals = "(string \<times> gval) list"

definition global_name :: "globals \<Rightarrow> string \<Rightarrow> error + gval" where
  "global_name g n = (case map_of g n of Some v \<Rightarrow> Inr v | None \<Rightarrow> Inl (NameError n))"

definition module_globals :: globals where
  "module_globals = []"

text \<open>The shape each of the four names must have where it is used.\<close>

fun as_floats :: "gval \<Rightarrow> error + rat list" where
  "as_floats (GFloats xs) = Inr xs"
| "as_floats v = Inl TypeError"

fun as_table :: "gval \<Rightarrow> error + rat list list" where
  "as_table (GTable rows) = Inr rows"
| "as_table v = Inl TypeError"

fun as_strings :: "gval \<Rightarrow> error + string list" where
  "as_strings (GStrings xs) = Inr xs"
| "as_strings v = Inl TypeError"

text \<open>
  \<open>wls.index(P["wavelength"])\<close>, with \<open>wls\<close> a list of floats: the name is looked up
  first, then the argument is computed, then the list is searched.
\<close>

definition wavelength_index :: "globals \<Rightarrow> local_params \<Rightarrow> params \<Rightarrow> error + nat" where
  "wavelength_index g local params =
     and_then (global_name g ''wls'') (\<lambda>w.
     and_then (chain_get local params ''wavelength'') (\<lambda>wv.
     and_then (as_floats w) (\<lambda>wls. index_pval (Multi (map AFloat wls)) wv)))"

text \<open>
  Line 293: \<open>reflectance = refls[wls.index(P["wavelength"])]\<close>. The name \<open>refls\<close> is
  looked up before the index is computed.
\<close>

definition reflectance_of :: "globals \<Rightarrow> local_params \<Rightarrow> params \<Rightarrow> error + rat" where
  "reflectance_of g local params =
     and_then (global_name g ''refls'') (\<lambda>r.
     and_then (wavelength_index g local params) (\<lambda>i.
     and_then (as_floats r) (\<lambda>refls. subscript refls i)))"

text \<open>Line 294: \<open>bandwidth = spectral_bands[wls.index(P["wavelength"]), 1]\<close>.\<close>

definition bandwidth_of :: "globals \<Rightarrow> local_params \<Rightarrow> params \<Rightarrow> error + rat" where
  "bandwidth_of g local params =
     and_then (global_name g ''spectral_bands'') (\<lambda>t.
     and_then (wavelength_index g local params) (\<lambda>i.
     and_then (as_table t) (\<lambda>rows.
     and_then (subscript rows i) (\<lambda>row. subscript row 1))))"

text \<open>
  Lines 259-267. \<open>brng\<close> is the array read from \<open>brng.lst\<close>, or \<open>None\<close> when \<open>batches\<close>
  found no such file; the file is looked for again here.
\<close>

definition bearing_of ::
  "env \<Rightarrow> fs \<Rightarrow> params \<Rightarrow> string list \<Rightarrow> rat list option \<Rightarrow> local_params \<Rightarrow> error + number" where
  "bearing_of env s params mv brng local =
     (if isfile s (abs_path (cwd env) ''brng.lst'') then
        and_then
          (if ''observer_coordinates'' \<notin> set mv then Inr 0
           else and_then (dict_get params ''observer_coordinates'') (\<lambda>obs.
                and_then (chain_get local params ''observer_coordinates'') (\<lambda>oc.
                  index_pval obs oc)))
          (\<lambda>obs_index.
             case brng of
               None \<Rightarrow> Inl TypeError
             | Some b \<Rightarrow> and_then (subscript b obs_index) (\<lambda>x. Inr (NFloat x)))
      else Inr (NInt 0))"

record setup_state =
  files :: fs
  exe_location :: "string list"
  exe_input :: "string list"
  exe_output :: "string list"

text \<open>One iteration of the loop over \<open>param_values\<close> (lines 250-300); \<open>vals\<close> is the loop variable.\<close>

definition folder_step ::
  "runtime \<Rightarrow> env \<Rightarrow> globals \<Rightarrow> params \<Rightarrow> string list \<Rightarrow> rat list option \<Rightarrow> bool \<Rightarrow> string \<Rightarrow>
   pval \<Rightarrow> setup_state \<Rightarrow> atom list \<Rightarrow> error + setup_state" where
  "folder_step rt env g params mv brng compact_mode dir_name exp_name st vals =
   (let local_params = ordered_dict (zip mv vals) in
    and_then (filtered_out params mv local_params) (\<lambda>skip.
    if skip then Inr st
    else
    and_then (bearing_of env (files st) params mv brng local_params) (\<lambda>bearing.
    and_then (chain_get local_params params ''observer_coordinates'') (\<lambda>oc.
    and_then (coords_of rt oc) (\<lambda>coords.
    let local_params = with_coords mv coords local_params;
        fold_name = fold_name_of rt compact_mode dir_name local_params;
        uid = unique_ID rt local_params
    in
    and_then (chain_get local_params params ''wavelength'') (\<lambda>wv.
    and_then (percent_g rt wv) (\<lambda>wavelength.
    and_then (chain_get local_params params ''layer'') (\<lambda>layer.
    and_then (reflectance_of g local_params params) (\<lambda>reflectance.
    and_then (bandwidth_of g local_params params) (\<lambda>bandwidth.
    and_then (global_name g ''lamps'') (\<lambda>l. and_then (as_strings l) (\<lambda>lamps.
    and_then (create_symlinks rt env fold_name params exp_name coords layer lamps wavelength
                (files st)) (\<lambda>s.
    Inr (st\<lparr>files := s,
            exe_input := exe_input st @ [uid],
            exe_output := exe_output st @ [str_pval rt exp_name @ ''_'' @ uid],
            exe_location :=
              exe_location st @ [path_str (abs_path (cwd env) fold_name)]\<rparr>))))))))))))))"

fun folder_loop ::
  "(setup_state \<Rightarrow> atom list \<Rightarrow> error + setup_state) \<Rightarrow> setup_state \<Rightarrow> atom list list \<Rightarrow>
   error + setup_state" where
  "folder_loop step st [] = Inr st"
| "folder_loop step st (v # vs) = and_then (step st v) (\<lambda>st'. folder_loop step st' vs)"

text \<open>Lines 304-308: one line \<open>f"{loc},{input}.in,{output}.out\n"\<close> per recorded combination.\<close>

definition manifest_line :: "string \<times> string \<times> string \<Rightarrow> string" where
  "manifest_line e =
     (case e of (loc, inp, out) \<Rightarrow>
        loc @ '','' @ (inp @ ''.in'') @ '','' @ (out @ ''.out'') @ [CHR 0x0A])"

definition manifest_text :: "setup_state \<Rightarrow> string" where
  "manifest_text st =
     concat (map manifest_line (zip (exe_location st) (zip (exe_input st) (exe_output st))))"

definition folder_setup ::
  "runtime \<Rightarrow> env \<Rightarrow> globals \<Rightarrow> atom list list \<Rightarrow> params \<Rightarrow> string list \<Rightarrow> rat list option \<Rightarrow>
   bool \<Rightarrow> string \<Rightarrow> pval \<Rightarrow> fs \<Rightarrow> error + setup_state" where
  "folder_setup rt env g param_values params mv brng compact_mode dir_name exp_name s =
     and_then
       (folder_loop (folder_step rt env g params mv brng compact_mode dir_name exp_name)
          \<lparr>files = s, exe_location = [], exe_input = [], exe_output = []\<rparr> param_values)
       (\<lambda>st.
     and_then (write_file (files st) (abs_path (cwd env) ''execute_info.txt'') (manifest_text st))
       (\<lambda>s'. Inr (st\<lparr>files := s'\<rparr>)))"

section \<open>\<open>batches\<close> (lines 84-204)\<close>

text \<open>
  What a run has read from its input files and from the multiscale dataset \<open>ds\<close>: the
  loaded \<open>inputs_params.in\<close>, \<open>len(ds)\<close>, \<open>ds.get_obs_pos()\<close>, the arrays of
  \<open>wav.lst\<close>, \<open>refl.lst\<close> and \<open>brng.lst\<close>, and the words of \<open>lamps.lst\<close>. A run whose
  input files are missing or unreadable is not represented. The raster export of lines
  120-139 writes its files with \<open>save_bin\<close> and the dataset's \<open>save\<close>, neither of which
  is in this module; the files it writes (path as passed, content) are an input. The
  arguments \<open>batch_size\<close> and \<open>scheduler\<close> only feed \<open>execute_str\<close>, which nothing
  reads.
\<close>

record inputs =
  loaded_params :: params
  n_layers :: nat
  obs_pos :: "(rat \<times> rat) list"
  spectral_bands :: "rat list list"
  refl_lst :: "rat list"
  lamps_lst :: "string list"
  brng_lst :: "rat list"
  raster_files :: "(string \<times> string) list"

text \<open>Lines 101-102.\<close>

definition named_params :: "params \<Rightarrow> string option \<Rightarrow> params" where
  "named_params params batch_name =
     (case batch_name of
        None \<Rightarrow> params
      | Some n \<Rightarrow> AList.update ''batch_file_name'' (Scalar (AStr n)) params)"

text \<open>Lines 104-105: \<open>for fname in glob("%s*" % params["batch_file_name"]): os.remove(fname)\<close>.\<close>

fun remove_all :: "fs \<Rightarrow> path list \<Rightarrow> error + fs" where
  "remove_all s [] = Inr s"
| "remove_all s (p # ps) = and_then (remove s p) (\<lambda>s'. remove_all s' ps)"

text \<open>\<open>"%s*" % v\<close>: a tuple on the right of \<open>%\<close> is taken as the argument list.\<close>

fun batch_pattern :: "runtime \<Rightarrow> pval \<Rightarrow> error + string" where
  "batch_pattern rt (Scalar (ATuple a b)) = Inl TypeError"
| "batch_pattern rt v = Inr (str_pval rt v @ ''*'')"

definition remove_batch_files :: "runtime \<Rightarrow> env \<Rightarrow> params \<Rightarrow> fs \<Rightarrow> error + fs" where
  "remove_batch_files rt env params s =
     and_then (dict_get params ''batch_file_name'') (\<lambda>b.
     and_then (batch_pattern rt b) (\<lambda>pattern.
       remove_all s (glob rt (cwd env) s pattern)))"

text \<open>Lines 113-139: the observer directories, \<open>"obs_data/%6f_%6f/%d" % (lat, lon, i)\<close>.\<close>

definition obs_dirs :: "runtime \<Rightarrow> (rat \<times> rat) list \<Rightarrow> nat \<Rightarrow> string list" where
  "obs_dirs rt obs n =
     concat (map (\<lambda>(lat, lon).
       map (\<lambda>i. ''obs_data/'' @ fmt_6f rt lat @ ''_'' @ fmt_6f rt lon @ ''/'' @ str_int (int i))
         [0..<n]) obs)"

definition preprocess :: "runtime \<Rightarrow> env \<Rightarrow> inputs \<Rightarrow> fs \<Rightarrow> error + fs" where
  "preprocess rt env inp s =
     run_steps
       (map (\<lambda>d s'. makedirs s' (abs_path (cwd env) d))
          (obs_dirs rt (obs_pos inp) (n_layers inp))
        @ map (\<lambda>(f, content) s'. write_file s' (abs_path (cwd env) f) content)
            (raster_files inp))
       (rmtree s (abs_path (cwd env) ''obs_data''))"

text \<open>
  Lines 142-152: the wavelengths (first column of \<open>wav.lst\<close>), the layers and the
  observers enter the configuration; a single layer or observer enters as a scalar.
\<close>

definition first_column :: "rat list list \<Rightarrow> error + rat list" where
  "first_column rows =
     (if [] \<in> set rows then Inl IndexError else Inr (map hd rows))"

definition single_as_scalar :: "string \<Rightarrow> params \<Rightarrow> params" where
  "single_as_scalar pname params =
     (case map_of params pname of
        Some (Multi [v]) \<Rightarrow> AList.update pname (Scalar v) params
      | _ \<Rightarrow> params)"

definition extended_params :: "inputs \<Rightarrow> params \<Rightarrow> rat list \<Rightarrow> params" where
  "extended_params inp params wls =
     single_as_scalar ''observer_coordinates''
       (single_as_scalar ''layer''
          (AList.update ''observer_coordinates''
             (Multi (map (\<lambda>(lat, lon). ATuple (AFloat lat) (AFloat lon)) (obs_pos inp)))
             (AList.update ''layer'' (Multi (map (\<lambda>i. AInt (int i)) [0..<n_layers inp]))
                (AList.update ''wavelength'' (Multi (map AFloat wls)) params))))"

text \<open>\<open>f"{item}\n"\<close> for a tuple of \<open>param_vals\<close> (lines 197-199).\<close>

definition repr_tuple :: "runtime \<Rightarrow> atom list \<Rightarrow> string" where
  "repr_tuple rt item =
     (case item of
        [x] \<Rightarrow> ''('' @ py_repr rt x @ '',)''
      | _ \<Rightarrow> ''('' @ join '', '' (map (py_repr rt) item) @ '')'')"

text \<open>Lines 162-165: the execution directory is removed and created anew.\<close>

definition clear_exec :: "env \<Rightarrow> fs \<Rightarrow> error + fs" where
  "clear_exec env s =
     makedirs (rmtree s (abs_path (cwd env) ''exec/'')) (abs_path (cwd env) ''exec/'')"

text \<open>
  Lines 96-165, everything \<open>batches\<close> does before it builds the parameter space: what
  it holds when the first combination is processed.
\<close>

record prepared =
  p_params :: params
  p_exp_name :: pval
  p_wls :: "rat list"
  p_brng :: "rat list option"
  p_files :: fs

definition prepare ::
  "runtime \<Rightarrow> env \<Rightarrow> inputs \<Rightarrow> string option \<Rightarrow> fs \<Rightarrow> error + prepared" where
  "prepare rt env inp batch_name s0 =
   (let params = named_params (loaded_params inp) batch_name in
    and_then (remove_batch_files rt env params s0) (\<lambda>s1.
    and_then (dict_get params ''exp_name'') (\<lambda>exp_name.
    and_then (preprocess rt env inp s1) (\<lambda>s2.
    and_then (first_column (spectral_bands inp)) (\<lambda>wls.
    let brng = (if isfile s2 (abs_path (cwd env) ''brng.lst'') then Some (brng_lst inp)
                else None)
    in
    and_then (clear_exec env s2) (\<lambda>s3.
    Inr \<lparr>p_params = extended_params inp params wls, p_exp_name = exp_name, p_wls = wls,
          p_brng = brng, p_files = s3\<rparr>))))))"

text \<open>Lines 167-204; the statements after the \<open>return\<close> of line 204 are never reached.\<close>

definition batches ::
  "runtime \<Rightarrow> env \<Rightarrow> inputs \<Rightarrow> bool \<Rightarrow> string option \<Rightarrow> fs \<Rightarrow> error + fs" where
  "batches rt env inp compact_mode batch_name s0 =
    and_then (prepare rt env inp batch_name s0) (\<lambda>pr.
    let params = p_params pr;
        dir_name = ''exec/'';
        mv = multival params;
        pv = param_vals params;
        const = \<lparr>c_multival = mv, c_brng = p_brng pr, c_compact = compact_mode,
                 c_dir_name = dir_name, c_wls = p_wls pr, c_refls = refl_lst inp,
                 c_spectral_bands = spectral_bands inp, c_lamps = lamps_lst inp,
                 c_exp_name = p_exp_name pr\<rparr>
    in
    and_then (write_file (p_files pr) (abs_path (cwd env) ''const_params.yml'')
                (yaml_dump rt const)) (\<lambda>s4.
    and_then (folder_setup rt env module_globals pv params mv (p_brng pr) compact_mode dir_name
                (p_exp_name pr) s4) (\<lambda>st.
    and_then (write_file (files st) (abs_path (cwd env) ''param_vals.txt'')
                (concat (map (\<lambda>item. repr_tuple rt item @ [CHR 0x0A]) pv))) (\<lambda>s5.
    write_file s5 (abs_path (cwd env) ''const_params.txt'') (format_const rt const)))))"

section \<open>Concrete inputs\<close>

text \<open>
  A runtime for the examples. Its conversions are those of Python on the values the
  examples use: floats with an integral value below a million, strings without quotes or
  escapes, and patterns made of a literal prefix and a final star.
\<close>

definition example_runtime :: runtime where
  "example_runtime =
     \<lparr>float_str = (\<lambda>r. str_int \<lfloor>r\<rfloor> @ ''.0''),
      fmt_g = (\<lambda>r. str_int \<lfloor>r\<rfloor>),
      fmt_6f = (\<lambda>r. str_int \<lfloor>r\<rfloor> @ ''.000000''),
      fl = (\<lambda>r. r),
      repr_str = (\<lambda>s. [CHR 0x27] @ s @ [CHR 0x27]),
      glob_match = (\<lambda>cwd pat p. length p = Suc (length cwd) \<and> take (length cwd) p = cwd
                      \<and> prefix (butlast pat) (last p)),
      yaml_dump = (\<lambda>c. ''''),
      format_const = (\<lambda>c. '''')\<rparr>"

definition example_env :: env where
  "example_env = \<lparr>cwd = [''run''], illumpath = ''/opt/illum''\<rparr>"

text \<open>
  A configuration after \<open>batches\<close> has added the wavelengths, the single layer and the
  single observer: two elevations, four azimuths, one wavelength.
\<close>

definition example_params :: params where
  "example_params =
     [(''exp_name'', Scalar (AStr ''Hawaii'')),
      (''batch_file_name'', Scalar (AStr ''batch'')),
      (''aerosol_profile'', Scalar (AStr ''CC'')),
      (''layer_type'', Scalar (AStr ''CC'')),
      (''layer_aod'', Scalar (AInt 0)),
      (''layer_alpha'', Scalar (AInt 1)),
      (''layer_height'', Scalar (AInt 2000)),
      (''double_scattering'', Scalar (ABool True)),
      (''single_scattering'', Scalar (ABool True)),
      (''air_pressure'', Scalar (AFloat 101)),
      (''aerosol_optical_depth'', Scalar (AInt 0)),
      (''angstrom_coefficient'', Scalar (AInt 1)),
      (''aerosol_height'', Scalar (AInt 2000)),
      (''stop_limit'', Scalar (AInt 5000)),
      (''observer_elevation'', Scalar (AInt 10)),
      (''observer_obstacles'', Scalar (ABool False)),
      (''direct_fov'', Scalar (AInt 5)),
      (''reflection_radius'', Scalar (AInt 10)),
      (''cloud_model'', Scalar (AInt 0)),
      (''cloud_base'', Scalar (AInt 0)),
      (''cloud_fraction'', Scalar (AInt 0)),
      (''elevation_angle'', Multi [AInt 45, AInt 90]),
      (''azimuth_angle'', Multi [AInt 0, AInt 60, AInt 120, AInt 180]),
      (''wavelength'', Multi [AFloat 400]),
      (''layer'', Scalar (AInt 0)),
      (''observer_coordinates'', Scalar (ATuple (AFloat 20) (AFloat (- 155))))]"

text \<open>
  A configuration whose list for \<open>cloud_model\<close> holds the integer 1 and the string
  \<open>"1"\<close> (YAML \<open>cloud_model: [1, "1"]\<close>).
\<close>

definition mixed_params :: params where
  "mixed_params =
     [(''exp_name'', Scalar (AStr ''Hawaii'')),
      (''cloud_model'', Multi [AInt 1, AStr ''1'']),
      (''wavelength'', Multi [AFloat 400]),
      (''layer'', Scalar (AInt 0)),
      (''observer_coordinates'', Scalar (ATuple (AFloat 20) (AFloat (- 155))))]"



text \<open>
  A working directory that holds nothing but an empty \<open>exec\<close> directory (no optical
  file, no photometric file, no raster), the sandbox directory of the example
  combination, and the file system \<open>create_symlinks\<close> leaves there.
\<close>

definition example_fresh_fs :: fs where
  "example_fresh_fs = [([''run''], Dir), ([''run'', ''exec''], Dir)]"

definition example_fold_name :: string where
  "example_fold_name = ''exec/elevation_angle_45/azimuth_angle_60/wavelength_400.0/''"

definition example_sandbox :: path where
  "example_sandbox =
     [''run'', ''exec'', ''elevation_angle_45'', ''azimuth_angle_60'', ''wavelength_400.0'']"

definition example_sandbox_fs :: fs where
  "example_sandbox_fs =
     [([''run''], Dir),
      ([''run'', ''exec''], Dir),
      ([''run'', ''exec'', ''elevation_angle_45''], Dir),
      ([''run'', ''exec'', ''elevation_angle_45'', ''azimuth_angle_60''], Dir),
      (example_sandbox, Dir),
      (example_sandbox @ [''aerosol.txt''], Symlink ''../../../../CC_400.txt''),
      (example_sandbox @ [''layer.txt''], Symlink ''../../../../CC_400.txt''),
      (example_sandbox @ [''MolecularAbs.txt''], Symlink ''../../../../MolecularAbs.txt''),
      (example_sandbox @ [''Hawaii_fctem_001.dat''],
       Symlink ''../../../../fctem_wl_400_lamp_LED.dat''),
      (example_sandbox @ [''illumina''], Symlink ''/opt/illum/bin/illumina''),
      (example_sandbox @ [''Hawaii_topogra.bin''],
       Symlink ''../../../../obs_data/20.000000_-155.000000/0/srtm.bin''),
      (example_sandbox @ [''origin.bin''],
       Symlink ''../../../../obs_data/20.000000_-155.000000/0/origin.bin''),
      (example_sandbox @ [''Hawaii_obstd.bin''],
       Symlink ''../../../../obs_data/20.000000_-155.000000/0/Hawaii_obstd.bin''),
      (example_sandbox @ [''Hawaii_obsth.bin''],
       Symlink ''../../../../obs_data/20.000000_-155.000000/0/Hawaii_obsth.bin''),
      (example_sandbox @ [''Hawaii_obstf.bin''],
       Symlink ''../../../../obs_data/20.000000_-155.000000/0/Hawaii_obstf.bin''),
      (example_sandbox @ [''Hawaii_altlp.bin''],
       Symlink ''../../../../obs_data/20.000000_-155.000000/0/Hawaii_altlp.bin''),
      (example_sandbox @ [''Hawaii_lumlp_001.bin''],
       Symlink ''../../../../obs_data/20.000000_-155.000000/0/Hawaii_400_lumlp_LED.bin'')]"



text \<open>
  The inputs of a run over the example configuration (its first 23 entries are what
  the configuration file holds), a working directory left by an earlier run (a batch
  file, and an \<open>exec\<close> directory holding a sandbox with its run script), and the file
  system in which the new run processes its first combination.
\<close>

definition example_inputs :: inputs where
  "example_inputs =
     \<lparr>loaded_params = take 23 example_params, n_layers = 1, obs_pos = [(20, - 155)],
      spectral_bands = [[400, 10]], refl_lst = [1], lamps_lst = [''LED''], brng_lst = [],
      raster_files = [(''obs_data/20.000000_-155.000000/0/srtm.bin'', '''')]\<rparr>"

definition example_used_fs :: fs where
  "example_used_fs =
     [([''run''], Dir),
      ([''run'', ''batch_1''], File ''cd exec/old''),
      ([''run'', ''exec''], Dir),
      ([''run'', ''exec'', ''old''], Dir),
      ([''run'', ''exec'', ''old'', ''execute''], File ''./illumina'')]"

definition example_prepared_fs :: fs where
  "example_prepared_fs =
     [([''run''], Dir),
      ([''run'', ''obs_data''], Dir),
      ([''run'', ''obs_data'', ''20.000000_-155.000000''], Dir),
      ([''run'', ''obs_data'', ''20.000000_-155.000000'', ''0''], Dir),
      ([''run'', ''obs_data'', ''20.000000_-155.000000'', ''0'', ''srtm.bin''], File ''''),
      ([''run'', ''exec''], Dir)]"

text \<open>
  The bindings \<open>folder_setup\<close> would find for its four free names if the local variables
  of \<open>batches\<close> were visible to it (they are not: see \<open>module_globals\<close>), and the file
  system it then leaves for the single example combination: the sandbox and the
  manifest.
\<close>

definition example_globals :: globals where
  "example_globals =
     [(''refls'', GFloats [1]), (''wls'', GFloats [400]),
      (''spectral_bands'', GTable [[400, 10]]), (''lamps'', GStrings [''LED''])]"

definition example_uid :: string where
  "example_uid = ''elevation_angle_45-azimuth_angle_60-wavelength_400.0''"

definition example_manifest_fs :: fs where
  "example_manifest_fs =
     example_sandbox_fs
     @ [([''run'', ''execute_info.txt''],
         File (''/run/exec/elevation_angle_45/azimuth_angle_60/wavelength_400.0,''
               @ example_uid @ ''.in,Hawaii_'' @ example_uid @ ''.out'' @ [CHR 0x0A]))]"

text \<open>
  The example of the specification's section 8: two wavelengths, one layer, two
  elevations, two azimuths, one observer.
\<close>

definition section8_params :: params where
  "section8_params =
     [(''exp_name'', Scalar (AStr ''Hawaii'')),
      (''elevation_angle'', Multi [AInt 45, AInt 90]),
      (''azimuth_angle'', Multi [AInt 0, AInt 180]),
      (''wavelength'', Multi [AFloat 400, AFloat 500]),
      (''layer'', Scalar (AInt 0)),
      (''observer_coordinates'', Scalar (ATuple (AFloat 20) (AFloat (- 155))))]"

section \<open>Notions used in the statements\<close>

text \<open>
  Two rendered values are separable when neither, followed by the separator \<open>-\<close> of the
  identifier, is a prefix of the other.
\<close>

definition dash_free :: "string \<Rightarrow> string \<Rightarrow> bool" where
  "dash_free s t = (\<not> prefix (s @ ''-'') t \<and> \<not> prefix (t @ ''-'') s)"

text \<open>
  The values of a combination as the identifier prints them: the observer as its
  coordinate string (already stored in the dict), every other value by \<open>str\<close>.
\<close>

definition rendered :: "runtime \<Rightarrow> local_params \<Rightarrow> string list" where
  "rendered rt local = map (py_str rt \<circ> snd) local"







text \<open>
  A table is tree-shaped when every entry lies in a directory of the table, as the
  entries of a file system do.
\<close>

definition tree_shaped :: "fs \<Rightarrow> bool" where
  "tree_shaped s = list_all (\<lambda>(q, n). isdir s (butlast q)) s"

text \<open>The combinations of the matrix that the filter lets through.\<close>

definition retained :: "params \<Rightarrow> atom list list" where
  "retained params =
     filter (\<lambda>vals. filtered_out params (multival params)
                      (ordered_dict (zip (multival params) vals)) = Inr False)
       (param_vals params)"

section \<open>Verification: the parameter space\<close>




lemma multival_bound:
  assumes "distinct (map fst params)" and "k \<in> set (multival params)"
  shows "\<exists>vs. map_of params k = Some (Multi vs)"
proof -
  from assms(2) have "k \<in> set (varying params)"
    by (simp add: multival_def sorted_len_reverse_def)
  then obtain v where kv: "(k, v) \<in> set params" and "is_list v"
    by (auto simp: varying_def)
  then obtain vs where "v = Multi vs" by (cases v) auto
  with kv assms(1) show ?thesis by auto
qed


lemma multival_sorted: "sorted_wrt (\<lambda>a b. length b \<le> length a) (multival params)"
proof -
  have "sorted (map (\<lambda>k. - int (length k)) (multival params))"
    unfolding multival_def sorted_len_reverse_def by (rule sorted_sort_key)
  then show ?thesis by (simp add: sorted_map)
qed

lemma multival_stable:
  "filter (\<lambda>k. length k = n) (multival params) = filter (\<lambda>k. length k = n) (varying params)"
proof -
  have "filter (\<lambda>k. - int (length k) = - int n) (sort_key (\<lambda>k. - int (length k)) (varying params))
      = filter (\<lambda>k. - int (length k) = - int n) (varying params)"
    by (rule sort_key_stable)
  then show ?thesis by (simp add: multival_def sorted_len_reverse_def)
qed

text \<open>
  Claim C4, as amended. The varying names are ordered by descending length of the
  parameter name (the sort key \<open>len\<close> is applied to the names, not to their value
  lists), names of equal length keep their declaration order, and the product is
  enumerated over the value lists in that order of the names.
\<close>

theorem C4_order_by_name_length:
  "sorted_wrt (\<lambda>a b. length b \<le> length a) (multival params)
   \<and> (\<forall>n. filter (\<lambda>k. length k = n) (multival params)
            = filter (\<lambda>k. length k = n) (varying params))
   \<and> param_vals params = product_py (map (values_of params) (multival params))"
  using multival_sorted [of params] multival_stable [of _ params]
  by (simp add: param_vals_def param_space_def)

lemma example_multival:
  "multival example_params = [''elevation_angle'', ''azimuth_angle'', ''wavelength'']"
  by (simp add: multival_def sorted_len_reverse_def varying_def example_params_def)

lemma example_cardinalities: "cardinalities example_params = [2, 4, 1]"
  unfolding cardinalities_def param_space_def example_multival
  by (simp add: values_of_def example_params_def)

text \<open>
  Claim C4 as stated fails: in the example configuration the name \<open>elevation_angle\<close>
  (two values) precedes \<open>azimuth_angle\<close> (four values), so the cardinalities 2, 4, 1
  are not in descending order.
\<close>

theorem C4_counterexample:
  "\<not> sorted_wrt (\<lambda>a b. b \<le> a) (cardinalities example_params)"
  by (simp add: example_cardinalities)

section \<open>Verification: the constraint filter\<close>

lemma py_eq_refl: "py_eq a a"
  by (induction a) auto

lemma index_py_head: "index_py (y # ys) x = Inr i \<Longrightarrow> (i \<noteq> 0) = (\<not> py_eq y x)"
  by (cases "index_py ys x") (auto split: if_splits)

lemma index_py_member: "x \<in> set xs \<Longrightarrow> \<exists>i. index_py xs x = Inr i"
proof (induction xs)
  case Nil
  then show ?case by simp
next
  case (Cons y ys)
  show ?case
  proof (cases "py_eq y x")
    case True
    then show ?thesis by simp
  next
    case False
    with Cons.prems have "x \<in> set ys" using py_eq_refl [of x] by auto
    with Cons.IH obtain i where "index_py ys x = Inr i" by blast
    with False show ?thesis by simp
  qed
qed

lemma map_of_update_fold:
  "map_of (foldl (\<lambda>d (k, v). AList.update k v d) d0 kvs) k = Some v
   \<Longrightarrow> (k, v) \<in> set kvs \<or> map_of d0 k = Some v"
proof (induction kvs arbitrary: d0)
  case Nil
  then show ?case by simp
next
  case (Cons kv kvs)
  obtain k' v' where kv: "kv = (k', v')" by (cases kv)
  from Cons.prems have "map_of (foldl (\<lambda>d (k, v). AList.update k v d) (AList.update k' v' d0) kvs) k = Some v"
    by (simp add: kv)
  from Cons.IH [OF this] show ?case
    by (auto simp: kv update_conv' split: if_splits)
qed

lemma dom_update_fold:
  "fst ` set (foldl (\<lambda>d (k, v). AList.update k v d) d0 kvs) = fst ` set d0 \<union> fst ` set kvs"
proof (induction kvs arbitrary: d0)
  case Nil
  then show ?case by simp
next
  case (Cons kv kvs)
  obtain k' v' where kv: "kv = (k', v')" by (cases kv)
  show ?case by (simp add: kv Cons.IH dom_update)
qed

lemma ordered_dict_Some: "map_of (ordered_dict kvs) k = Some v \<Longrightarrow> (k, v) \<in> set kvs"
  using map_of_update_fold [of "[]" kvs k v] by (simp add: ordered_dict_def)

lemma ordered_dict_bound:
  assumes "k \<in> set ks" and "length vs = length ks"
  shows "\<exists>v. map_of (ordered_dict (zip ks vs)) k = Some v"
proof -
  from assms have "k \<in> fst ` set (zip ks vs)"
    by (metis map_fst_zip set_map)
  then have "k \<in> fst ` set (ordered_dict (zip ks vs))"
    using dom_update_fold [of "[]" "zip ks vs"] by (simp add: ordered_dict_def)
  then have "k \<in> dom (map_of (ordered_dict (zip ks vs)))"
    by (simp add: dom_map_of_conv_image_fst)
  then show ?thesis by auto
qed

lemma product_py_member:
  "ys \<in> set (product_py xss) \<Longrightarrow> list_all2 (\<lambda>y xs. y \<in> set xs) ys xss"
  by (induction xss arbitrary: ys) auto

lemma combination_values:
  assumes "vals \<in> set (param_vals params)"
  shows "length vals = length (multival params)"
    and "(k, v) \<in> set (zip (multival params) vals) \<Longrightarrow> v \<in> set (values_of params k)"
proof -
  from assms have all: "list_all2 (\<lambda>y xs. y \<in> set xs) vals (map (values_of params) (multival params))"
    by (simp add: param_vals_def param_space_def product_py_member)
  then show len: "length vals = length (multival params)"
    by (auto dest: list_all2_lengthD)
  assume "(k, v) \<in> set (zip (multival params) vals)"
  then obtain i where i: "i < length vals" "multival params ! i = k" "vals ! i = v"
    using len by (auto simp: in_set_zip)
  with all len show "v \<in> set (values_of params k)"
    by (auto simp: list_all2_conv_all_nth)
qed

lemma folder_step_skip:
  "filtered_out params mv (ordered_dict (zip mv vals)) = Inr True
   \<Longrightarrow> folder_step rt env g params mv brng cm dir_name exp_name st vals = Inr st"
  by (simp add: folder_step_def)

text \<open>
  Claim C3. For a combination of the generated product, when \<open>azimuth_angle\<close> varies
  and the resolved \<open>elevation_angle\<close> equals 90, the filter skips the combination
  exactly when its azimuth differs from the first element of the configured azimuth list;
  and a skipped combination leaves the whole state of \<open>folder_setup\<close> as it was: the
  file system (no sandbox, no file) and the three manifest lists.
\<close>

theorem C3_zenith_filter:
  assumes keys: "distinct (map fst params)"
      and az: "''azimuth_angle'' \<in> set (multival params)"
      and vals: "vals \<in> set (param_vals params)"
      and elev: "chain_get (ordered_dict (zip (multival params) vals)) params ''elevation_angle'' = Inr e"
      and e90: "eq_int e 90"
  shows "\<exists>a first rest.
           map_of (ordered_dict (zip (multival params) vals)) ''azimuth_angle'' = Some a
         \<and> values_of params ''azimuth_angle'' = first # rest
         \<and> filtered_out params (multival params) (ordered_dict (zip (multival params) vals))
             = Inr (\<not> py_eq first a)
         \<and> (\<not> py_eq first a \<longrightarrow>
              folder_step rt env g params (multival params) brng cm dir_name exp_name st vals
                = Inr st)"
proof -
  let ?mv = "multival params"
  let ?local = "ordered_dict (zip ?mv vals)"
  from combination_values(1) [OF vals] az obtain a
    where a: "map_of ?local ''azimuth_angle'' = Some a"
    using ordered_dict_bound by blast
  then have "(''azimuth_angle'', a) \<in> set (zip ?mv vals)"
    by (rule ordered_dict_Some)
  then have mem: "a \<in> set (values_of params ''azimuth_angle'')"
    by (rule combination_values(2) [OF vals])
  then obtain first rest where azs: "values_of params ''azimuth_angle'' = first # rest"
    by (cases "values_of params ''azimuth_angle''") auto
  from multival_bound [OF keys az] obtain vs
    where vs: "map_of params ''azimuth_angle'' = Some (Multi vs)" by blast
  with azs have vs_eq: "vs = first # rest" by (simp add: values_of_def)
  from mem azs index_py_member obtain i where i: "index_py (first # rest) a = Inr i"
    by metis
  have skip: "filtered_out params ?mv ?local = Inr (\<not> py_eq first a)"
    using az elev e90 a vs i index_py_head [OF i]
    by (simp add: filtered_out_def chain_get_def dict_get_def vs_eq del: index_py.simps)
  have "\<not> py_eq first a \<Longrightarrow>
          folder_step rt env g params ?mv brng cm dir_name exp_name st vals = Inr st"
    using skip by (simp add: folder_step_skip)
  with a azs skip show ?thesis by blast
qed


lemma example_param_vals:
  "param_vals example_params =
     [[AInt 45, AInt 0, AFloat 400], [AInt 45, AInt 60, AFloat 400],
      [AInt 45, AInt 120, AFloat 400], [AInt 45, AInt 180, AFloat 400],
      [AInt 90, AInt 0, AFloat 400], [AInt 90, AInt 60, AFloat 400],
      [AInt 90, AInt 120, AFloat 400], [AInt 90, AInt 180, AFloat 400]]"
  unfolding param_vals_def param_space_def example_multival
  by (simp add: values_of_def example_params_def)

lemma example_local:
  "ordered_dict (zip (multival example_params) [AInt 90, AInt 180, AFloat 400]) =
     [(''elevation_angle'', AInt 90), (''azimuth_angle'', AInt 180), (''wavelength'', AFloat 400)]"
  unfolding example_multival by (simp add: ordered_dict_def)

text \<open>
  Witness for C3: elevation 90 with azimuth 180, where the azimuth list starts with 0.
\<close>

theorem C3_zenith_filter_witness:
  "distinct (map fst example_params)
   \<and> ''azimuth_angle'' \<in> set (multival example_params)
   \<and> [AInt 90, AInt 180, AFloat 400] \<in> set (param_vals example_params)
   \<and> chain_get (ordered_dict (zip (multival example_params) [AInt 90, AInt 180, AFloat 400]))
         example_params ''elevation_angle'' = Inr (Scalar (AInt 90))
   \<and> eq_int (Scalar (AInt 90)) 90
   \<and> filtered_out example_params (multival example_params)
         (ordered_dict (zip (multival example_params) [AInt 90, AInt 180, AFloat 400]))
         = Inr True
   \<and> folder_step example_runtime example_env module_globals example_params
         (multival example_params) None False ''exec/'' (Scalar (AStr ''Hawaii''))
         \<lparr>files = [], exe_location = [], exe_input = [], exe_output = []\<rparr>
         [AInt 90, AInt 180, AFloat 400]
         = Inr \<lparr>files = [], exe_location = [], exe_input = [], exe_output = []\<rparr>"
proof -
  let ?vals = "[AInt 90, AInt 180, AFloat 400]"
  let ?local = "ordered_dict (zip (multival example_params) ?vals)"
  have h1: "distinct (map fst example_params)" by (simp add: example_params_def)
  have h2: "''azimuth_angle'' \<in> set (multival example_params)" by (simp add: example_multival)
  have h3: "?vals \<in> set (param_vals example_params)" by (simp add: example_param_vals)
  have h4: "chain_get ?local example_params ''elevation_angle'' = Inr (Scalar (AInt 90))"
    by (simp add: example_local chain_get_def)
  have h5: "eq_int (Scalar (AInt 90)) 90" by simp
  from C3_zenith_filter [OF h1 h2 h3 h4 h5, of example_runtime example_env module_globals None
      False "''exec/''" "Scalar (AStr ''Hawaii'')"
      "\<lparr>files = [], exe_location = [], exe_input = [], exe_output = []\<rparr>"]
  obtain a first rest where
      a: "map_of ?local ''azimuth_angle'' = Some a"
    and f: "values_of example_params ''azimuth_angle'' = first # rest"
    and skip: "filtered_out example_params (multival example_params) ?local = Inr (\<not> py_eq first a)"
    and step: "\<not> py_eq first a \<longrightarrow>
         folder_step example_runtime example_env module_globals example_params
           (multival example_params) None False ''exec/'' (Scalar (AStr ''Hawaii''))
           \<lparr>files = [], exe_location = [], exe_input = [], exe_output = []\<rparr> ?vals
         = Inr \<lparr>files = [], exe_location = [], exe_input = [], exe_output = []\<rparr>"
    by blast
  from a have "a = AInt 180" by (simp add: example_local)
  moreover from f have "first = AInt 0" by (simp add: values_of_def example_params_def)
  ultimately have "\<not> py_eq first a" by simp
  with skip step h1 h2 h3 h4 h5 show ?thesis by simp
qed

section \<open>Verification: the identifier\<close>

lemma dash_split:
  assumes eq: "s @ ''-'' @ x = t @ ''-'' @ y" and df: "dash_free s t"
  shows "s = t \<and> x = y"
proof -
  from eq obtain u where
    "(s = t @ u \<and> u @ ''-'' @ x = ''-'' @ y) \<or> (s @ u = t \<and> ''-'' @ x = u @ ''-'' @ y)"
    by (auto simp: append_eq_append_conv2)
  then show ?thesis
  proof
    assume h: "s = t @ u \<and> u @ ''-'' @ x = ''-'' @ y"
    show ?thesis
    proof (cases u)
      case Nil
      with h show ?thesis by simp
    next
      case (Cons c u')
      with h have "c = CHR ''-''" by simp
      with h Cons have "prefix (t @ ''-'') s" by (simp add: prefix_def)
      with df show ?thesis by (simp add: dash_free_def)
    qed
  next
    assume h: "s @ u = t \<and> ''-'' @ x = u @ ''-'' @ y"
    show ?thesis
    proof (cases u)
      case Nil
      with h show ?thesis by simp
    next
      case (Cons c u')
      with h have "c = CHR ''-''" by simp
      with h Cons have "prefix (s @ ''-'') t" by (auto simp: prefix_def)
      with df show ?thesis by (simp add: dash_free_def)
    qed
  qed
qed

lemma join_dash_inj:
  assumes "list_all2 dash_free ss ts" and "length ss = length ks"
    and "join ''-'' (map (\<lambda>(k, s). k @ ''_'' @ s) (zip ks ss))
       = join ''-'' (map (\<lambda>(k, s). k @ ''_'' @ s) (zip ks ts))"
  shows "ss = ts"
  using assms
proof (induction ks arbitrary: ss ts)
  case Nil
  then show ?case by simp
next
  case (Cons k ks)
  from Cons.prems obtain s ss' t ts' where
    ss: "ss = s # ss'" and ts: "ts = t # ts'" and df: "dash_free s t"
    and rest: "list_all2 dash_free ss' ts'" and len: "length ss' = length ks"
    by (cases ss; cases ts) auto
  show ?case
  proof (cases ks)
    case Nil
    with Cons.prems ss ts len show ?thesis by simp
  next
    case (Cons k' ks')
    with len rest obtain s2 ss2 t2 ts2 where ss': "ss' = s2 # ss2" and ts': "ts' = t2 # ts2"
      by (cases ss'; cases ts') auto
    let ?f = "\<lambda>(k, s). k @ ''_'' @ s"
    from Cons.prems(3) have
      "s @ ''-'' @ join ''-'' (map ?f (zip ks ss')) = t @ ''-'' @ join ''-'' (map ?f (zip ks ts'))"
      by (simp add: ss ts ss' ts' Cons)
    from dash_split [OF this df] have "s = t"
      and "join ''-'' (map ?f (zip ks ss')) = join ''-'' (map ?f (zip ks ts'))" by simp_all
    with Cons.IH [OF rest len] ss ts show ?thesis by simp
  qed
qed

lemma ordered_dict_distinct:
  "distinct ks \<Longrightarrow> length vs = length ks \<Longrightarrow> ordered_dict (zip ks vs) = zip ks vs"
proof -
  have gen: "\<And>d0. distinct (map fst d0 @ ks) \<Longrightarrow> length vs = length ks \<Longrightarrow>
      foldl (\<lambda>d (k, v). AList.update k v d) d0 (zip ks vs) = d0 @ zip ks vs"
  proof (induction ks arbitrary: vs)
    case Nil
    then show ?case by simp
  next
    case (Cons k ks)
    then obtain v vs' where vs: "vs = v # vs'" by (cases vs) auto
    from Cons.prems have notin: "k \<notin> fst ` set d0" by auto
    then have upd: "AList.update k v d0 = d0 @ [(k, v)]"
      by (induction d0) auto
    have "distinct (map fst (d0 @ [(k, v)]) @ ks)" using Cons.prems by auto
    from Cons.IH [OF this, of vs'] Cons.prems show ?case
      by (simp add: vs upd)
  qed
  assume "distinct ks" "length vs = length ks"
  then show ?thesis using gen [of "[]"] by (simp add: ordered_dict_def)
qed

lemma keys_with_coords:
  "''observer_coordinates'' \<in> set mv \<Longrightarrow> map fst local = mv
   \<Longrightarrow> map fst (with_coords mv c local) = mv"
  by (auto simp: with_coords_def update_keys)

lemma keys_with_coords': "map fst local = mv \<Longrightarrow> map fst (with_coords mv c local) = mv"
  by (cases "''observer_coordinates'' \<in> set mv") (auto simp: with_coords_def update_keys)

lemma unique_ID_zip:
  "unique_ID rt local
     = join ''-'' (map (\<lambda>(k, s). k @ ''_'' @ s) (zip (map fst local) (rendered rt local)))"
proof -
  have "map (key_value rt) local
      = map (\<lambda>(k, s). k @ ''_'' @ s) (zip (map fst local) (rendered rt local))"
    by (induction local) (auto simp: key_value_def rendered_def)
  then show ?thesis by (simp add: unique_ID_def)
qed

lemma distinct_multival: "distinct (map fst params) \<Longrightarrow> distinct (multival params)"
proof -
  assume "distinct (map fst params)"
  then have "distinct (map fst (filter (\<lambda>(k, v). is_list v) params))"
    by (rule distinct_map_filter)
  then show ?thesis by (simp add: multival_def sorted_len_reverse_def varying_def)
qed


text \<open>
  Claim C5, as amended. Take two combinations of the matrix, each with its dict after
  the observer's value has been replaced by a coordinate string. If their rendered
  values differ for some varying parameter, and position by position the two rendered
  values are separable (neither, followed by \<open>-\<close>, is a prefix of the other), then
  their identifiers differ. The identifier is computed from the dict alone: compact mode
  is not an argument of \<open>unique_ID\<close>.
\<close>

theorem C5_unique_ids:
  assumes keys: "distinct (map fst params)"
      and v1: "vals \<in> set (param_vals params)"
      and v2: "vals' \<in> set (param_vals params)"
      and l1: "local = with_coords (multival params) c (ordered_dict (zip (multival params) vals))"
      and l2: "local' = with_coords (multival params) c' (ordered_dict (zip (multival params) vals'))"
      and df: "list_all2 dash_free (rendered rt local) (rendered rt local')"
      and ne: "rendered rt local \<noteq> rendered rt local'"
  shows "unique_ID rt local \<noteq> unique_ID rt local'"
proof
  assume eq: "unique_ID rt local = unique_ID rt local'"
  let ?mv = "multival params"
  have d: "distinct ?mv" using keys by (rule distinct_multival)
  have k1: "map fst local = ?mv"
    unfolding l1 using ordered_dict_distinct [OF d combination_values(1) [OF v1]]
      combination_values(1) [OF v1] by (intro keys_with_coords') simp
  have k2: "map fst local' = ?mv"
    unfolding l2 using ordered_dict_distinct [OF d combination_values(1) [OF v2]]
      combination_values(1) [OF v2] by (intro keys_with_coords') simp
  have len: "length (rendered rt local) = length ?mv"
    using k1 by (metis length_map rendered_def)
  from eq have "join ''-'' (map (\<lambda>(k, s). k @ ''_'' @ s) (zip ?mv (rendered rt local)))
      = join ''-'' (map (\<lambda>(k, s). k @ ''_'' @ s) (zip ?mv (rendered rt local')))"
    by (simp add: unique_ID_zip k1 k2)
  from join_dash_inj [OF df len this] ne show False by simp
qed

lemma example_multival_mixed: "multival mixed_params = [''cloud_model'', ''wavelength'']"
  by (simp add: multival_def sorted_len_reverse_def varying_def mixed_params_def)

lemma example_param_vals_mixed:
  "param_vals mixed_params = [[AInt 1, AFloat 400], [AStr ''1'', AFloat 400]]"
  unfolding param_vals_def param_space_def example_multival_mixed
  by (simp add: values_of_def mixed_params_def)

lemma str_int_1: "str_int 1 = ''1''"
  by (simp add: str_int_def digits10.simps)

text \<open>
  Claim C5 as stated fails: the combinations \<open>(1, 400.0)\<close> and \<open>("1", 400.0)\<close> of the
  mixed configuration are two different combinations of the matrix, their first values
  are not even equal in Python's sense, and both get the identifier
  \<open>cloud_model_1-wavelength_400.0\<close>.
\<close>

theorem C5_counterexample:
  "[AInt 1, AFloat 400] \<in> set (param_vals mixed_params)
   \<and> [AStr ''1'', AFloat 400] \<in> set (param_vals mixed_params)
   \<and> [AInt 1, AFloat 400] \<noteq> [AStr ''1'', AFloat 400]
   \<and> \<not> py_eq (AInt 1) (AStr ''1'')
   \<and> unique_ID example_runtime
         (with_coords (multival mixed_params) ''20.000000_-155.000000''
            (ordered_dict (zip (multival mixed_params) [AInt 1, AFloat 400])))
     = unique_ID example_runtime
         (with_coords (multival mixed_params) ''20.000000_-155.000000''
            (ordered_dict (zip (multival mixed_params) [AStr ''1'', AFloat 400])))"
  unfolding example_multival_mixed
  by (simp add: example_param_vals_mixed unique_ID_def key_value_def with_coords_def
      ordered_dict_def str_int_1)

lemma str_int_examples:
  "str_int 45 = ''45''" "str_int 0 = ''0''" "str_int 60 = ''60''" "str_int 400 = ''400''"
  by (simp_all add: str_int_def digits10.simps)

text \<open>Witness for C5: azimuth 0 against azimuth 60 in the example configuration.\<close>

theorem C5_unique_ids_witness:
  "distinct (map fst example_params)
   \<and> [AInt 45, AInt 0, AFloat 400] \<in> set (param_vals example_params)
   \<and> [AInt 45, AInt 60, AFloat 400] \<in> set (param_vals example_params)
   \<and> rendered example_runtime
         [(''elevation_angle'', AInt 45), (''azimuth_angle'', AInt 0), (''wavelength'', AFloat 400)]
       = [''45'', ''0'', ''400.0'']
   \<and> rendered example_runtime
         [(''elevation_angle'', AInt 45), (''azimuth_angle'', AInt 60), (''wavelength'', AFloat 400)]
       = [''45'', ''60'', ''400.0'']
   \<and> unique_ID example_runtime
         [(''elevation_angle'', AInt 45), (''azimuth_angle'', AInt 0), (''wavelength'', AFloat 400)]
     \<noteq> unique_ID example_runtime
         [(''elevation_angle'', AInt 45), (''azimuth_angle'', AInt 60), (''wavelength'', AFloat 400)]"
proof -
  let ?l1 = "[(''elevation_angle'', AInt 45), (''azimuth_angle'', AInt 0), (''wavelength'', AFloat 400)]"
  let ?l2 = "[(''elevation_angle'', AInt 45), (''azimuth_angle'', AInt 60), (''wavelength'', AFloat 400)]"
  have h1: "distinct (map fst example_params)" by (simp add: example_params_def)
  have h2: "[AInt 45, AInt 0, AFloat 400] \<in> set (param_vals example_params)"
    by (simp add: example_param_vals)
  have h3: "[AInt 45, AInt 60, AFloat 400] \<in> set (param_vals example_params)"
    by (simp add: example_param_vals)
  have h4: "?l1 = with_coords (multival example_params) ''20.000000_-155.000000''
                    (ordered_dict (zip (multival example_params) [AInt 45, AInt 0, AFloat 400]))"
    unfolding example_multival by (simp add: with_coords_def ordered_dict_def)
  have h5: "?l2 = with_coords (multival example_params) ''20.000000_-155.000000''
                    (ordered_dict (zip (multival example_params) [AInt 45, AInt 60, AFloat 400]))"
    unfolding example_multival by (simp add: with_coords_def ordered_dict_def)
  have r1: "rendered example_runtime ?l1 = [''45'', ''0'', ''400.0'']"
    by (simp add: rendered_def example_runtime_def str_int_examples)
  have r2: "rendered example_runtime ?l2 = [''45'', ''60'', ''400.0'']"
    by (simp add: rendered_def example_runtime_def str_int_examples)
  have h6: "list_all2 dash_free (rendered example_runtime ?l1) (rendered example_runtime ?l2)"
    unfolding r1 r2 by (simp add: dash_free_def)
  have h7: "rendered example_runtime ?l1 \<noteq> rendered example_runtime ?l2"
    unfolding r1 r2 by simp
  from C5_unique_ids [OF h1 h2 h3 h4 h5 h6 h7] h1 h2 h3 r1 r2 show ?thesis by simp
qed

section \<open>Verification: the input document\<close>







lemma str_int_serial:
  "str_int 0 = ''0''" "str_int 1 = ''1''" "str_int 5 = ''5''" "str_int 10 = ''10''"
  "str_int 45 = ''45''" "str_int 50 = ''50''" "str_int 101 = ''101''" "str_int 256 = ''256''"
  "str_int 1000 = ''1000''" "str_int 2000 = ''2000''" "str_int 5000 = ''5000''"
  by (simp_all add: str_int_def digits10.simps)





section \<open>Verification: sandbox materialization\<close>

text \<open>A step extends the file system when every node it finds is still there afterwards.\<close>

lemma lookup_append_new:
  "lookup s q = Some n \<Longrightarrow> lookup (s @ new) q = Some n"
  by (auto simp: lookup_def split: if_splits)

lemma makedirs_extends:
  "makedirs s p = Inr s' \<Longrightarrow> lookup s q = Some n \<Longrightarrow> lookup s' q = Some n"
  by (auto simp: makedirs_def lookup_append_new split: if_splits option.splits)

lemma symlink_extends:
  "symlink s t l = Inr s' \<Longrightarrow> lookup s q = Some n \<Longrightarrow> lookup s' q = Some n"
  by (auto simp: symlink_def lookup_append_new split: if_splits)

lemma link_rel_extends:
  "link_rel env fold_name src dst s = Inr s' \<Longrightarrow> lookup s q = Some n \<Longrightarrow> lookup s' q = Some n"
  unfolding link_rel_def by (rule symlink_extends)

lemma run_steps_extends:
  assumes "\<And>f s s'. f \<in> set fs \<Longrightarrow> f s = Inr s' \<Longrightarrow> lookup s q = Some n \<Longrightarrow> lookup s' q = Some n"
    and "run_steps fs s = Inr s'" and "lookup s q = Some n"
  shows "lookup s' q = Some n"
  using assms
proof (induction fs arbitrary: s)
  case Nil
  then show ?case by simp
next
  case (Cons f fs)
  from Cons.prems(2) obtain s1 where s1: "f s = Inr s1" and rest: "run_steps fs s1 = Inr s'"
    by (cases "f s") simp_all
  from Cons.prems(1) [of f, OF _ s1 Cons.prems(3)] have l1: "lookup s1 q = Some n" by simp
  show ?case
  proof (rule Cons.IH [OF _ rest l1])
    fix g t t' assume "g \<in> set fs" "g t = Inr t'" "lookup t q = Some n"
    then show "lookup t' q = Some n" using Cons.prems(1) [of g t t'] by simp
  qed
qed

lemma and_then_Inr: "and_then m f = Inr y \<Longrightarrow> \<exists>x. m = Inr x \<and> f x = Inr y"
  by (cases m) simp_all

lemma sandbox_steps_extend:
  assumes "f \<in> set (sandbox_steps rt env fold_name params exp_name coords layer lamps wavelength)"
    and "f s = Inr s'" and "lookup s q = Some n"
  shows "lookup s' q = Some n"
  using assms
  by (auto simp: sandbox_steps_def Let_def
      dest!: and_then_Inr
      intro: makedirs_extends symlink_extends link_rel_extends)

lemma makedirs_isdir: "makedirs s p = Inr s' \<Longrightarrow> isdir s' p"
proof -
  assume a: "makedirs s p = Inr s'"
  then have none: "lookup s p = None" by (auto simp: makedirs_def split: if_splits)
  then have p: "p \<noteq> []" by (auto simp: lookup_def)
  let ?new = "map (\<lambda>q. (q, Dir)) (filter (\<lambda>q. lookup s q = None) (prefixes p))"
  from a none have s': "s' = s @ ?new"
    by (auto simp: makedirs_def split: if_splits option.splits)
  have "p \<in> set (filter (\<lambda>q. lookup s q = None) (prefixes p))" using none by simp
  then have "map_of ?new p = Some Dir"
    by (induction "filter (\<lambda>q. lookup s q = None) (prefixes p)") (auto simp: map_of_map_restrict)
  moreover from none p have "map_of s p = None" by (simp add: lookup_def)
  ultimately show ?thesis using p by (simp add: isdir_def lookup_def s' map_add_def)
qed

lemma create_symlinks_isdir:
  assumes "create_symlinks rt env fold_name params exp_name coords layer lamps wavelength s = Inr s'"
  shows "isdir s' (abs_path (cwd env) fold_name)"
proof (cases "isdir s (abs_path (cwd env) fold_name)")
  case True
  with assms show ?thesis by (simp add: create_symlinks_def)
next
  case False
  let ?p = "abs_path (cwd env) fold_name"
  let ?steps = "sandbox_steps rt env fold_name params exp_name coords layer lamps wavelength"
  from False assms have run: "run_steps ?steps s = Inr s'" by (simp add: create_symlinks_def)
  obtain rest where steps: "?steps = (\<lambda>s. makedirs s ?p) # rest"
    by (simp add: sandbox_steps_def Let_def)
  with run obtain s1 where mk: "makedirs s ?p = Inr s1" and r: "run_steps rest s1 = Inr s'"
    by (cases "makedirs s ?p") simp_all
  from makedirs_isdir [OF mk] have d: "lookup s1 ?p = Some Dir" by (simp add: isdir_def)
  have "lookup s' ?p = Some Dir"
  proof (rule run_steps_extends [OF _ r d])
    fix f t t' assume "f \<in> set rest" "f t = Inr t'" "lookup t ?p = Some Dir"
    then show "lookup t' ?p = Some Dir"
      using sandbox_steps_extend [of f rt env fold_name params exp_name coords layer lamps wavelength t t' ?p Dir]
      by (simp add: steps)
  qed
  then show ?thesis by (simp add: isdir_def)
qed

text \<open>
  Claim C8. When the sandbox directory of a combination already exists,
  \<open>create_symlinks\<close> returns the file system as it found it: no directory and no link is
  created. And once \<open>create_symlinks\<close> has returned for a sandbox directory, running it
  again for that directory, with whatever other arguments, changes nothing: a second
  construction over the same combinations creates no new link.
\<close>

theorem C8_existing_sandbox_skipped:
  "(isdir s (abs_path (cwd env) fold_name) \<longrightarrow>
      create_symlinks rt env fold_name params exp_name coords layer lamps wavelength s = Inr s)
   \<and> (create_symlinks rt env fold_name params exp_name coords layer lamps wavelength s = Inr s' \<longrightarrow>
      create_symlinks rt env fold_name params' exp_name' coords' layer' lamps' wavelength' s' = Inr s')"
proof (intro conjI impI)
  assume "isdir s (abs_path (cwd env) fold_name)"
  then show "create_symlinks rt env fold_name params exp_name coords layer lamps wavelength s = Inr s"
    by (simp add: create_symlinks_def)
next
  assume "create_symlinks rt env fold_name params exp_name coords layer lamps wavelength s = Inr s'"
  then have "isdir s' (abs_path (cwd env) fold_name)" by (rule create_symlinks_isdir)
  then show "create_symlinks rt env fold_name params' exp_name' coords' layer' lamps' wavelength' s' = Inr s'"
    by (simp add: create_symlinks_def)
qed

lemma example_create_symlinks:
  "create_symlinks example_runtime example_env example_fold_name example_params
     (Scalar (AStr ''Hawaii'')) ''20.000000_-155.000000'' (Scalar (AInt 0)) [''LED''] ''400''
     example_fresh_fs = Inr example_sandbox_fs"
  by code_simp













































lemma example_isdir: "isdir example_sandbox_fs (abs_path (cwd example_env) example_fold_name)"
  by code_simp

text \<open>
  Witness for C8: the sandbox of the example combination is built in the fresh working
  directory, and building it again on the result changes nothing.
\<close>

theorem C8_existing_sandbox_skipped_witness:
  "isdir example_sandbox_fs (abs_path (cwd example_env) example_fold_name)
   \<and> create_symlinks example_runtime example_env example_fold_name example_params
       (Scalar (AStr ''Hawaii'')) ''20.000000_-155.000000'' (Scalar (AInt 0)) [''LED''] ''400''
       example_sandbox_fs = Inr example_sandbox_fs
   \<and> create_symlinks example_runtime example_env example_fold_name example_params
       (Scalar (AStr ''Hawaii'')) ''20.000000_-155.000000'' (Scalar (AInt 0)) [''LED''] ''400''
       example_fresh_fs = Inr example_sandbox_fs"
  using C8_existing_sandbox_skipped [of example_sandbox_fs example_env example_fold_name
      example_runtime example_params "Scalar (AStr ''Hawaii'')" "''20.000000_-155.000000''"
      "Scalar (AInt 0)" "[''LED'']" "''400''"]
    example_isdir example_create_symlinks
  by simp

section \<open>Verification: the clean start of a run\<close>

lemma tree_shapedD: "tree_shaped s \<Longrightarrow> (q, n) \<in> set s \<Longrightarrow> isdir s (butlast q)"
  by (auto simp: tree_shaped_def list_all_iff)

lemma tree_shapedI: "(\<And>q n. (q, n) \<in> set s \<Longrightarrow> isdir s (butlast q)) \<Longrightarrow> tree_shaped s"
  by (auto simp: tree_shaped_def list_all_iff)

lemma lookup_SomeD: "lookup s q = Some n \<Longrightarrow> q \<noteq> [] \<Longrightarrow> (q, n) \<in> set s"
  by (auto simp: lookup_def dest: map_of_SomeD)

lemma lookup_None_notin: "lookup s q = None \<Longrightarrow> (q, n) \<notin> set s"
  by (auto simp: lookup_def map_of_eq_None_iff split: if_splits intro: rev_image_eqI)

text \<open>In a tree-shaped table nothing lies below a path that is absent.\<close>

lemma below_absent:
  assumes "tree_shaped s" and "lookup s p = None"
  shows "(p @ r, n) \<notin> set s"
proof (induction r arbitrary: n rule: rev_induct)
  case Nil
  from assms(2) show ?case by (simp add: lookup_None_notin)
next
  case (snoc x r)
  show ?case
  proof
    assume "(p @ r @ [x], n) \<in> set s"
    from tree_shapedD [OF assms(1) this] have d: "lookup s (p @ r) = Some Dir"
      by (simp add: isdir_def butlast_append)
    from assms(2) have "p \<noteq> []" by (auto simp: lookup_def)
    with d have "(p @ r, Dir) \<in> set s" by (intro lookup_SomeD) auto
    with snoc.IH show False by blast
  qed
qed

subsection \<open>Operations keep the table tree-shaped\<close>

lemma lookup_delete: "q \<noteq> p \<Longrightarrow> lookup (AList.delete p s) q = lookup s q"
  by (simp add: lookup_def delete_conv')

lemma remove_tree_shaped:
  assumes "remove s p = Inr s'" and "tree_shaped s"
  shows "tree_shaped s'"
proof (rule tree_shapedI)
  fix q n assume q: "(q, n) \<in> set s'"
  from assms(1) have s': "s' = AList.delete p s" and nd: "lookup s p \<noteq> Some Dir"
    by (auto simp: remove_def split: option.splits node.splits)
  from q s' have "(q, n) \<in> set s" by (auto simp: AList.delete_eq)
  from tree_shapedD [OF assms(2) this] have d: "lookup s (butlast q) = Some Dir"
    by (simp add: isdir_def)
  with nd have "butlast q \<noteq> p" by auto
  with d show "isdir s' (butlast q)" by (simp add: isdir_def s' lookup_delete)
qed

lemma remove_all_tree_shaped:
  "remove_all s ps = Inr s' \<Longrightarrow> tree_shaped s \<Longrightarrow> tree_shaped s'"
proof (induction ps arbitrary: s)
  case Nil
  then show ?case by simp
next
  case (Cons p ps)
  from Cons.prems(1) obtain s1 where s1: "remove s p = Inr s1" and r: "remove_all s1 ps = Inr s'"
    by (cases "remove s p") simp_all
  from Cons.IH [OF r remove_tree_shaped [OF s1 Cons.prems(2)]] show ?case .
qed

lemma map_of_filter_key:
  "map_of (filter (\<lambda>(k, v). P k) xs) k = (if P k then map_of xs k else None)"
  by (induction xs) auto

lemma lookup_filter_key:
  "P q \<Longrightarrow> lookup (filter (\<lambda>(k, v). P k) s) q = lookup s q"
  by (simp add: lookup_def map_of_filter_key)

lemma rmtree_tree_shaped:
  assumes "tree_shaped s"
  shows "tree_shaped (rmtree s p)"
proof (cases "isdir s p")
  case False
  with assms show ?thesis by (simp add: rmtree_def)
next
  case True
  show ?thesis
  proof (rule tree_shapedI)
    fix q n assume "(q, n) \<in> set (rmtree s p)"
    with True have q: "(q, n) \<in> set s" and np: "\<not> prefix p q" by (auto simp: rmtree_def)
    from np have "\<not> prefix p (butlast q)"
      by (metis prefix_order.trans prefixeq_butlast)
    then have "lookup (rmtree s p) (butlast q) = lookup s (butlast q)"
      using True lookup_filter_key [of "\<lambda>k. \<not> prefix p k" "butlast q" s]
      by (simp add: rmtree_def)
    with tree_shapedD [OF assms q] show "isdir (rmtree s p) (butlast q)" by (simp add: isdir_def)
  qed
qed

lemma lookup_new_dirs:
  assumes "lookup s q = None" and "q \<in> set qs"
  shows "lookup (s @ map (\<lambda>q. (q, Dir)) (filter (\<lambda>q. lookup s q = None) qs)) q = Some Dir"
proof -
  from assms(1) have ne: "q \<noteq> []" and none: "map_of s q = None"
    by (auto simp: lookup_def split: if_splits)
  from assms have "q \<in> set (filter (\<lambda>q. lookup s q = None) qs)" by simp
  then have "map_of (map (\<lambda>q. (q, Dir)) (filter (\<lambda>q. lookup s q = None) qs)) q = Some Dir"
    by (induction "filter (\<lambda>q. lookup s q = None) qs") (auto simp: map_of_map_restrict)
  with ne none show ?thesis by (simp add: lookup_def map_add_def)
qed

lemma find_None_all: "find P xs = None \<Longrightarrow> x \<in> set xs \<Longrightarrow> \<not> P x"
  by (induction xs) (auto split: if_splits)

lemma makedirs_tree_shaped:
  assumes mk: "makedirs s p = Inr s'" and ts: "tree_shaped s"
  shows "tree_shaped s'"
proof (rule tree_shapedI)
  fix q n assume q: "(q, n) \<in> set s'"
  let ?new = "map (\<lambda>q. (q, Dir)) (filter (\<lambda>q. lookup s q = None) (prefixes p))"
  from mk have s': "s' = s @ ?new"
    and way: "find (\<lambda>q. lookup s q \<noteq> None \<and> lookup s q \<noteq> Some Dir) (prefixes p) = None"
    by (auto simp: makedirs_def split: if_splits option.splits)
  from q s' consider "(q, n) \<in> set s" | "prefix q p" "lookup s q = None"
    by (auto simp: in_set_prefixes)
  then show "isdir s' (butlast q)"
  proof cases
    case 1
    from tree_shapedD [OF ts this] show ?thesis
      by (simp add: isdir_def s' lookup_append_new del: map_append)
  next
    case 2
    from 2(1) have bp: "prefix (butlast q) p"
      by (metis prefix_order.trans prefixeq_butlast)
    then have mem: "butlast q \<in> set (prefixes p)" by (simp add: in_set_prefixes)
    from find_None_all [OF way mem]
    have "lookup s (butlast q) = None \<or> lookup s (butlast q) = Some Dir" by auto
    then show ?thesis
    proof
      assume "lookup s (butlast q) = None"
      from lookup_new_dirs [OF this mem] show ?thesis by (simp add: isdir_def s')
    next
      assume "lookup s (butlast q) = Some Dir"
      then show ?thesis by (simp add: isdir_def s' lookup_append_new del: map_append)
    qed
  qed
qed

lemma lookup_update: "lookup (AList.update p v s) q = (if q = [] then Some Dir else if q = p then Some v else lookup s q)"
  by (simp add: lookup_def update_conv')

lemma set_update_cases: "(q, n) \<in> set (AList.update p v s) \<Longrightarrow> q = p \<or> (q, n) \<in> set s"
  by (induction s) (auto split: if_splits)

lemma write_file_tree_shaped:
  assumes w: "write_file s p c = Inr s'" and ts: "tree_shaped s"
  shows "tree_shaped s'"
proof (rule tree_shapedI)
  fix q n assume q: "(q, n) \<in> set s'"
  from w have s': "s' = AList.update p (File c) s" and nd: "lookup s p \<noteq> Some Dir"
    and par: "isdir s (butlast p)"
    by (auto simp: write_file_def split: if_splits)
  from q s' have "q = p \<or> (q, n) \<in> set s"
    by (auto dest: set_update_cases)
  with par tree_shapedD [OF ts] have d: "lookup s (butlast q) = Some Dir"
    by (auto simp: isdir_def)
  with nd have "butlast q \<noteq> p" by auto
  with d show "isdir s' (butlast q)" by (simp add: isdir_def s' lookup_update)
qed

lemma run_steps_tree_shaped:
  assumes "\<And>f s s'. f \<in> set fs \<Longrightarrow> f s = Inr s' \<Longrightarrow> tree_shaped s \<Longrightarrow> tree_shaped s'"
    and "run_steps fs s = Inr s'" and "tree_shaped s"
  shows "tree_shaped s'"
  using assms
proof (induction fs arbitrary: s)
  case Nil
  then show ?case by simp
next
  case (Cons f fs)
  from Cons.prems(2) obtain s1 where s1: "f s = Inr s1" and rest: "run_steps fs s1 = Inr s'"
    by (cases "f s") simp_all
  from Cons.prems(1) [of f, OF _ s1 Cons.prems(3)] have t1: "tree_shaped s1" by simp
  show ?case
  proof (rule Cons.IH [OF _ rest t1])
    fix g t t' assume "g \<in> set fs" "g t = Inr t'" "tree_shaped t"
    then show "tree_shaped t'" using Cons.prems(1) [of g t t'] by simp
  qed
qed

lemma preprocess_tree_shaped:
  assumes "preprocess rt env inp s = Inr s'" and "tree_shaped s"
  shows "tree_shaped s'"
proof (rule run_steps_tree_shaped [OF _ assms(1) [unfolded preprocess_def] rmtree_tree_shaped [OF assms(2)]])
  fix f t t'
  assume "f \<in> set (map (\<lambda>d s'. makedirs s' (abs_path (cwd env) d))
             (obs_dirs rt (obs_pos inp) (n_layers inp))
           @ map (\<lambda>(f, content) s'. write_file s' (abs_path (cwd env) f) content)
               (raster_files inp))"
    and "f t = Inr t'" and "tree_shaped t"
  then show "tree_shaped t'"
    by (auto intro: makedirs_tree_shaped write_file_tree_shaped)
qed

subsection \<open>The two removals\<close>

lemma remove_all_result:
  "remove_all s ps = Inr s' \<Longrightarrow> s' = filter (\<lambda>(k, v). k \<notin> set ps) s"
proof (induction ps arbitrary: s)
  case Nil
  then show ?case by simp
next
  case (Cons p ps)
  from Cons.prems obtain s1 where s1: "remove s p = Inr s1" and r: "remove_all s1 ps = Inr s'"
    by (cases "remove s p") simp_all
  have "AList.delete p s = filter (\<lambda>(k, v). k \<noteq> p) s"
    by (induction s) auto
  with s1 have "s1 = filter (\<lambda>(k, v). k \<noteq> p) s"
    by (auto simp: remove_def split: option.splits node.splits)
  with Cons.IH [OF r] show ?case
    by (auto simp: case_prod_unfold intro: filter_cong)
qed

lemma glob_after_removal:
  "glob rt c (filter (\<lambda>(k, v). k \<notin> set (glob rt c s pat)) s) pat = []"
  by (auto simp: glob_def filter_empty_conv intro: rev_image_eqI)

lemma batch_pattern_Inr: "batch_pattern rt b = Inr pat \<Longrightarrow> pat = str_pval rt b @ ''*''"
  by (cases "(rt, b)" rule: batch_pattern.cases) auto

lemma remove_batch_files_none_left:
  assumes "remove_batch_files rt env params s = Inr s'"
  shows "\<exists>b. dict_get params ''batch_file_name'' = Inr b
            \<and> remove_all s (glob rt (cwd env) s (str_pval rt b @ ''*'')) = Inr s'
            \<and> glob rt (cwd env) s' (str_pval rt b @ ''*'') = []"
proof -
  from assms obtain b pat where b: "dict_get params ''batch_file_name'' = Inr b"
    and p: "batch_pattern rt b = Inr pat"
    and r: "remove_all s (glob rt (cwd env) s pat) = Inr s'"
    by (auto simp: remove_batch_files_def dest!: and_then_Inr)
  from batch_pattern_Inr [OF p] have pat: "pat = str_pval rt b @ ''*''" .
  from remove_all_result [OF r] glob_after_removal [of rt "cwd env" s pat]
  have "glob rt (cwd env) s' pat = []" by simp
  with b r pat show ?thesis by blast
qed

lemma clear_exec_fresh:
  assumes c: "clear_exec env s = Inr s'" and ts: "tree_shaped s"
  shows "isdir s' (abs_path (cwd env) ''exec/'')"
    and "(q, n) \<in> set s' \<Longrightarrow> prefix (abs_path (cwd env) ''exec/'') q
         \<Longrightarrow> q = abs_path (cwd env) ''exec/''"
proof -
  let ?p = "abs_path (cwd env) ''exec/''"
  let ?r = "rmtree s ?p"
  from c have mk: "makedirs ?r ?p = Inr s'" by (simp add: clear_exec_def)
  from makedirs_isdir [OF mk] show "isdir s' ?p" .
  assume q: "(q, n) \<in> set s'" and pq: "prefix ?p q"
  from mk have none: "lookup ?r ?p = None"
    and s': "s' = ?r @ map (\<lambda>q. (q, Dir)) (filter (\<lambda>q. lookup ?r q = None) (prefixes ?p))"
    by (auto simp: makedirs_def split: if_splits option.splits)
  from q s' consider "(q, n) \<in> set ?r" | "prefix q ?p" by (auto simp: in_set_prefixes)
  then show "q = ?p"
  proof cases
    case 1
    from pq obtain r where "q = ?p @ r" by (auto simp: prefix_def)
    with below_absent [OF rmtree_tree_shaped [OF ts] none, of r n] 1 show ?thesis by simp
  next
    case 2
    with pq show ?thesis by (simp add: prefix_order.antisym)
  qed
qed


text \<open>
  Claim C10. Whenever \<open>batches\<close> gets as far as processing combinations (\<open>prepare\<close>
  returns), on a tree-shaped file system: the removal loop at the start has deleted every
  entry that the pattern \<open><batch_file_name>*\<close> selects (globbing again finds nothing),
  and the file system handed on holds \<open>exec\<close> as a directory with nothing below it, so
  no sandbox and no run script of an earlier run is left. \<open>batches\<close> passes this file
  system to \<open>folder_setup\<close> after writing \<open>const_params.yml\<close> beside \<open>exec\<close>.
\<close>

theorem C10_clean_start:
  assumes ts: "tree_shaped s0"
      and pr: "prepare rt env inp batch_name s0 = Inr pr"
  shows "\<exists>b s1.
           dict_get (named_params (loaded_params inp) batch_name) ''batch_file_name'' = Inr b
         \<and> remove_batch_files rt env (named_params (loaded_params inp) batch_name) s0 = Inr s1
         \<and> glob rt (cwd env) s1 (str_pval rt b @ ''*'') = []
         \<and> isdir (p_files pr) (abs_path (cwd env) ''exec/'')
         \<and> (\<forall>(q, n) \<in> set (p_files pr).
               prefix (abs_path (cwd env) ''exec/'') q \<longrightarrow> q = abs_path (cwd env) ''exec/'')"
proof -
  let ?params = "named_params (loaded_params inp) batch_name"
  from pr obtain s1 where s1: "remove_batch_files rt env ?params s0 = Inr s1"
    by (cases "remove_batch_files rt env ?params s0") (simp_all add: prepare_def)
  from pr s1 obtain exp_name where e: "dict_get ?params ''exp_name'' = Inr exp_name"
    by (cases "dict_get ?params ''exp_name''") (simp_all add: prepare_def)
  from pr s1 e obtain s2 where s2: "preprocess rt env inp s1 = Inr s2"
    by (cases "preprocess rt env inp s1") (simp_all add: prepare_def)
  from pr s1 e s2 obtain wls where w: "first_column (spectral_bands inp) = Inr wls"
    by (cases "first_column (spectral_bands inp)") (simp_all add: prepare_def)
  from pr s1 e s2 w have c: "clear_exec env s2 = Inr (p_files pr)"
    by (cases "clear_exec env s2") (auto simp: prepare_def)
  from s1 obtain b where b: "dict_get ?params ''batch_file_name'' = Inr b"
    and ra: "remove_all s0 (glob rt (cwd env) s0 (str_pval rt b @ ''*'')) = Inr s1"
    and g: "glob rt (cwd env) s1 (str_pval rt b @ ''*'') = []"
    using remove_batch_files_none_left by blast
  from remove_all_tree_shaped [OF ra ts] have "tree_shaped s1" .
  from preprocess_tree_shaped [OF s2 this] have t2: "tree_shaped s2" .
  from clear_exec_fresh [OF c t2] b s1 g show ?thesis by blast
qed

lemma example_prepare:
  "prepare example_runtime example_env example_inputs None example_used_fs
     = Inr \<lparr>p_params = example_params, p_exp_name = Scalar (AStr ''Hawaii''), p_wls = [400],
            p_brng = None, p_files = example_prepared_fs\<rparr>"
  by code_simp

text \<open>
  Witness for C10: a working directory with the batch file and the sandbox of an earlier
  run; after \<open>prepare\<close> both are gone.
\<close>

theorem C10_clean_start_witness:
  "tree_shaped example_used_fs
   \<and> lookup example_used_fs [''run'', ''batch_1''] = Some (File ''cd exec/old'')
   \<and> lookup example_used_fs [''run'', ''exec'', ''old'', ''execute''] = Some (File ''./illumina'')
   \<and> prepare example_runtime example_env example_inputs None example_used_fs
       = Inr \<lparr>p_params = example_params, p_exp_name = Scalar (AStr ''Hawaii''), p_wls = [400],
              p_brng = None, p_files = example_prepared_fs\<rparr>
   \<and> isdir example_prepared_fs (abs_path (cwd example_env) ''exec/'')
   \<and> lookup example_prepared_fs [''run'', ''batch_1''] = None
   \<and> lookup example_prepared_fs [''run'', ''exec'', ''old'', ''execute''] = None"
proof -
  have t: "tree_shaped example_used_fs" by code_simp
  have l: "lookup example_used_fs [''run'', ''batch_1''] = Some (File ''cd exec/old'')"
    "lookup example_used_fs [''run'', ''exec'', ''old'', ''execute''] = Some (File ''./illumina'')"
    "lookup example_prepared_fs [''run'', ''batch_1''] = None"
    "lookup example_prepared_fs [''run'', ''exec'', ''old'', ''execute''] = None"
    by (simp_all add: lookup_def example_used_fs_def example_prepared_fs_def)
  from C10_clean_start [OF t example_prepare]
  have "isdir example_prepared_fs (abs_path (cwd example_env) ''exec/'')" by auto
  with t l example_prepare show ?thesis by simp
qed

section \<open>Verification: a whole run\<close>

text \<open>
  Claim C6 does not hold of the code. \<open>folder_setup\<close> is called with seven arguments
  and reads \<open>refls\<close>, which is none of them and no global of the module: on the example
  configuration, whose first combination is retained, it raises NameError at line 293,
  before any entry is recorded and before line 304 opens the manifest.
\<close>

theorem C6_manifest_not_written:
  "folder_setup example_runtime example_env module_globals (param_vals example_params)
     example_params (multival example_params) None False ''exec/'' (Scalar (AStr ''Hawaii''))
     example_prepared_fs
   = Inl (NameError ''refls'')"
  by code_simp

text \<open>
  Claim C1 does not hold of the code. \<open>batches\<close> on the example inputs ends in the
  NameError of \<open>folder_setup\<close>. Were the four names bound, \<open>folder_setup\<close> would build
  the sandbox of a combination and list \<open><uniqueID>.in\<close> in the manifest, yet the only
  regular file it leaves is the manifest itself and no \<open><uniqueID>.in\<close> stands in the
  sandbox: the function that writes it, \<open>param_generate\<close>, is called only after the
  \<open>return\<close> of line 204.
\<close>

theorem C1_no_input_file:
  "batches example_runtime example_env example_inputs False None example_used_fs
     = Inl (NameError ''refls'')
   \<and> folder_setup example_runtime example_env example_globals [[AInt 45, AInt 60, AFloat 400]]
       example_params (multival example_params) None False ''exec/'' (Scalar (AStr ''Hawaii''))
       example_fresh_fs
     = Inr \<lparr>files = example_manifest_fs,
            exe_location = [''/run/exec/elevation_angle_45/azimuth_angle_60/wavelength_400.0''],
            exe_input = [example_uid],
            exe_output = [''Hawaii_'' @ example_uid]\<rparr>
   \<and> lookup example_manifest_fs (example_sandbox @ [example_uid @ ''.in'']) = None
   \<and> map fst (filter (\<lambda>(q, n). case n of File c \<Rightarrow> True | _ \<Rightarrow> False) example_manifest_fs)
     = [[''run'', ''execute_info.txt'']]"
  by code_simp

section \<open>Further properties\<close>

lemma reflectance_unbound:
  "reflectance_of module_globals local params = Inl (NameError ''refls'')"
  by (simp add: reflectance_of_def global_name_def module_globals_def)

lemma folder_step_module:
  assumes "folder_step rt env module_globals params mv brng cm dir_name exp_name st vals = Inr st'"
  shows "st' = st"
  using assms
  by (auto simp: folder_step_def Let_def reflectance_unbound dest!: and_then_Inr
      split: if_splits)

lemma folder_loop_module:
  "folder_loop (folder_step rt env module_globals params mv brng cm dir_name exp_name) st pvs
     = Inr st' \<Longrightarrow> st' = st"
proof (induction pvs arbitrary: st)
  case Nil
  then show ?case by simp
next
  case (Cons v pvs)
  from Cons.prems obtain st1
    where s1: "folder_step rt env module_globals params mv brng cm dir_name exp_name st v = Inr st1"
      and r: "folder_loop (folder_step rt env module_globals params mv brng cm dir_name exp_name)
                st1 pvs = Inr st'"
    by (auto dest!: and_then_Inr)
  from folder_step_module [OF s1] Cons.IH [OF r] show ?case by simp
qed

text \<open>
  With the globals of the module, \<open>folder_setup\<close> can only return when every
  combination was skipped by the filter: it has then recorded nothing and has written an
  empty manifest. Any combination the filter lets through makes it raise.
\<close>

lemma manifest_path: "abs_path c ''execute_info.txt'' \<noteq> []"
  by (simp add: abs_path_def norm_step_def)

theorem folder_setup_records_nothing:
  assumes "folder_setup rt env module_globals param_values params mv brng cm dir_name exp_name s
             = Inr st"
  shows "exe_location st = [] \<and> exe_input st = [] \<and> exe_output st = []
       \<and> lookup (files st) (abs_path (cwd env) ''execute_info.txt'') = Some (File '''')"
proof -
  let ?st0 = "\<lparr>files = s, exe_location = [], exe_input = [], exe_output = []\<rparr>"
  from assms obtain st1 s' where
    l: "folder_loop (folder_step rt env module_globals params mv brng cm dir_name exp_name)
          ?st0 param_values = Inr st1"
    and w: "write_file (files st1) (abs_path (cwd env) ''execute_info.txt'') (manifest_text st1)
              = Inr s'"
    and st: "st = st1\<lparr>files := s'\<rparr>"
    by (auto simp: folder_setup_def dest!: and_then_Inr)
  from folder_loop_module [OF l] have st1: "st1 = ?st0" .
  from w st1 have "s' = AList.update (abs_path (cwd env) ''execute_info.txt'') (File '''') s"
    by (auto simp: write_file_def manifest_text_def split: if_splits)
  with st st1 manifest_path [of "cwd env"] show ?thesis by (simp add: lookup_update)
qed


text \<open>A run of \<open>folder_setup\<close> over a single combination that the filter skips.\<close>

theorem folder_setup_records_nothing_witness:
  "folder_setup example_runtime example_env module_globals [[AInt 90, AInt 180, AFloat 400]]
     example_params (multival example_params) None False ''exec/'' (Scalar (AStr ''Hawaii''))
     example_fresh_fs
   = Inr \<lparr>files = example_fresh_fs @ [([''run'', ''execute_info.txt''], File '''')],
          exe_location = [], exe_input = [], exe_output = []\<rparr>"
proof -
  have e: "folder_setup example_runtime example_env module_globals [[AInt 90, AInt 180, AFloat 400]]
     example_params (multival example_params) None False ''exec/'' (Scalar (AStr ''Hawaii''))
     example_fresh_fs
   = Inr \<lparr>files = example_fresh_fs @ [([''run'', ''execute_info.txt''], File '''')],
          exe_location = [], exe_input = [], exe_output = []\<rparr>"
    by code_simp
  from folder_setup_records_nothing [OF e] e show ?thesis by simp
qed

text \<open>
  The example of the specification's section 8: the product has 8 combinations, of which
  the filter lets 6 through.
\<close>

theorem section8_example:
  "length (param_vals section8_params) = 8 \<and> length (retained section8_params) = 6"
  by code_simp

text \<open>
  An integer azimuth with an integer bearing is written as their sum reduced into the
  range from 0 to 359.
\<close>

theorem azimuth_wrapped:
  "py_mod360 rt (NInt (a + b)) = AInt ((a + b) mod 360)
   \<and> 0 \<le> (a + b) mod 360 \<and> (a + b) mod 360 < 360
   \<and> azimuth_view rt (Inr (Scalar (AInt a))) (NInt b) = Inr (Scalar (AInt ((a + b) mod 360)))"
  by (simp add: azimuth_view_def)


end
